theory Spec2Isabelle
  imports Complex_Main
begin

section \<open>Python values and the library functions the code calls\<close>

text \<open>
  ProfitPulse is written in Python: the attributes of a \<open>Session\<close> hold whatever the
  caller or the JSON request body supplied. The values that can arrive are the JSON values,
  modelled by \<open>json\<close>. A Python \<open>float\<close> is idealised as a rational number: the sign
  and the order are kept, rounding, infinities and NaN are not represented. A Python
  \<open>dict\<close> with string keys is an association list read with \<open>map_of\<close>.

  So every float of the model is finite. The literals \<open>Infinity\<close>, \<open>-Infinity\<close>,
  \<open>NaN\<close> and \<open>1e999\<close>, which Python's \<open>json\<close> reads as floats that are not finite,
  and the strings that \<open>float\<close> reads as such a float, are no values of the model: what the
  code does with them (\<open>int\<close> of an infinite float raises \<open>OverflowError\<close>) is not
  described here. An \<open>int\<close> is unbounded, as in Python, and \<open>float\<close> of an \<open>int\<close>
  beyond the range of a float raises \<open>OverflowError\<close>.
\<close>

datatype json =
    JNull
  | JBool bool
  | JInt int
  | JFloat rat
  | JStr string
  | JArr "json list"
  | JObj "(string \<times> json) list"

datatype error = KeyError | ValueError | TypeError | AttributeError | OverflowError

text \<open>
  The builtins \<open>float(str)\<close>, \<open>int(str)\<close>, \<open>datetime.isoformat\<close> and
  \<open>datetime.fromisoformat\<close> belong to Python, not to the repository: they are parameters
  of the model. A parser returns \<open>None\<close> where Python raises \<open>ValueError\<close>.
  \<open>'d\<close> is the type of \<open>datetime\<close> objects.
\<close>

record 'd pylib =
  float_of_str :: "string \<Rightarrow> rat option"
  int_of_str :: "string \<Rightarrow> int option"
  isoformat :: "'d \<Rightarrow> string"
  fromisoformat :: "string \<Rightarrow> 'd option"

text \<open>Truth value of a Python object, as \<open>or\<close>, \<open>if\<close> and \<open>not\<close> test it.\<close>

fun truthy :: "json \<Rightarrow> bool" where
  "truthy JNull = False"
| "truthy (JBool b) = b"
| "truthy (JInt i) = (i \<noteq> 0)"
| "truthy (JFloat r) = (r \<noteq> 0)"
| "truthy (JStr s) = (s \<noteq> [])"
| "truthy (JArr xs) = (xs \<noteq> [])"
| "truthy (JObj kvs) = (kvs \<noteq> [])"

definition py_or :: "json \<Rightarrow> json \<Rightarrow> json" where
  "py_or x y = (if truthy x then x else y)"

text \<open>
  \<open>float(x)\<close>: \<open>TypeError\<close> on None, lists and dicts, \<open>ValueError\<close> on a string that
  is no number, \<open>OverflowError\<close> on an \<open>int\<close> too large for a float. The largest float
  is \<open>2^1024 - 2^971\<close>; an \<open>int\<close> is rounded to the nearest float, so the first one that
  is too large is \<open>2^1024 - 2^970\<close>, half way to \<open>2^1024\<close>.
\<close>

definition float_overflows :: "int \<Rightarrow> bool" where
  "float_overflows i = (2 ^ 1024 - 2 ^ 970 \<le> \<bar>i\<bar>)"

fun py_float :: "'d pylib \<Rightarrow> json \<Rightarrow> error + rat" where
  "py_float lib JNull = Inl TypeError"
| "py_float lib (JBool b) = Inr (if b then 1 else 0)"
| "py_float lib (JInt i) = (if float_overflows i then Inl OverflowError else Inr (of_int i))"
| "py_float lib (JFloat r) = Inr r"
| "py_float lib (JStr s) = (case float_of_str lib s of None \<Rightarrow> Inl ValueError | Some r \<Rightarrow> Inr r)"
| "py_float lib (JArr xs) = Inl TypeError"
| "py_float lib (JObj kvs) = Inl TypeError"

text \<open>
  \<open>int(x)\<close>: a float is truncated towards zero. The floats of the model are finite, so
  \<open>int\<close> raises \<open>TypeError\<close> or \<open>ValueError\<close> only.
\<close>

fun py_int :: "'d pylib \<Rightarrow> json \<Rightarrow> error + int" where
  "py_int lib JNull = Inl TypeError"
| "py_int lib (JBool b) = Inr (if b then 1 else 0)"
| "py_int lib (JInt i) = Inr i"
| "py_int lib (JFloat r) = Inr (if 0 \<le> r then \<lfloor>r\<rfloor> else \<lceil>r\<rceil>)"
| "py_int lib (JStr s) = (case int_of_str lib s of None \<Rightarrow> Inl ValueError | Some i \<Rightarrow> Inr i)"
| "py_int lib (JArr xs) = Inl TypeError"
| "py_int lib (JObj kvs) = Inl TypeError"

text \<open>The number a Python object stands for in a comparison or a division (\<open>bool\<close> is an \<open>int\<close>).\<close>

fun num_of :: "json \<Rightarrow> rat option" where
  "num_of (JBool b) = Some (if b then 1 else 0)"
| "num_of (JInt i) = Some (of_int i)"
| "num_of (JFloat r) = Some r"
| "num_of _ = None"

text \<open>\<open>d.get(k)\<close>, \<open>d.get(k, default)\<close> and \<open>d[k]\<close>.\<close>

definition dget :: "(string \<times> json) list \<Rightarrow> string \<Rightarrow> json" where
  "dget d k = (case map_of d k of None \<Rightarrow> JNull | Some v \<Rightarrow> v)"

definition dget_default :: "(string \<times> json) list \<Rightarrow> string \<Rightarrow> json \<Rightarrow> json" where
  "dget_default d k dflt = (case map_of d k of None \<Rightarrow> dflt | Some v \<Rightarrow> v)"

definition dindex :: "(string \<times> json) list \<Rightarrow> string \<Rightarrow> error + json" where
  "dindex d k = (case map_of d k of None \<Rightarrow> Inl KeyError | Some v \<Rightarrow> Inr v)"

text \<open>
  \<open>str.split()\<close> without arguments: the maximal runs of non-whitespace characters, in
  order. Whitespace is what \<open>str.isspace\<close> accepts among the code points below 256.
\<close>

definition is_space :: "char \<Rightarrow> bool" where
  "is_space c = (let n = (of_char c :: nat) in
     (9 \<le> n \<and> n \<le> 13) \<or> (28 \<le> n \<and> n \<le> 32) \<or> n = 133 \<or> n = 160)"

fun split_from :: "string \<Rightarrow> string \<Rightarrow> string list" where
  "split_from cur [] = (if cur = [] then [] else [cur])"
| "split_from cur (c # cs) =
     (if is_space c then (if cur = [] then split_from [] cs else cur # split_from [] cs)
      else split_from (cur @ [c]) cs)"

definition split_ws :: "string \<Rightarrow> string list" where
  "split_ws s = split_from [] s"

section \<open>models.py: Session\<close>

text \<open>
  The class body defines \<open>_infer_stake_from_game\<close>, \<open>profit\<close>, \<open>hourly_rate\<close> and
  \<open>__repr__\<close> twice; the later definition of each is the one the class keeps. The statements
  after the \<open>return\<close> of the first \<open>__repr__\<close> are never executed. \<open>__init__\<close> is defined
  once. Every attribute but \<open>bullets\<close> and \<open>date\<close> can hold any value: \<open>__init__\<close>
  stores \<open>float(buy_in)\<close> and \<open>float(cash_out)\<close>, the PUT handler may store None there.
\<close>

text \<open>The attribute \<open>notes\<close> is the field \<open>notes'\<close>: \<open>notes\<close> is a keyword of Isabelle.\<close>

record 'd session =
  game :: json
  buy_in :: json
  cash_out :: json
  location :: json
  hours_played :: json
  notes' :: json
  date :: 'd
  stake :: json
  format :: json
  bullets :: int
  tag :: json

text \<open>The arguments of \<open>Session(...)\<close>; \<open>default_args\<close> holds the defaults of the signature.\<close>

record 'd session_args =
  a_game :: json
  a_buy_in :: json
  a_cash_out :: json
  a_location :: json
  a_hours_played :: json
  a_notes :: json
  a_date :: "'d option"
  a_stake :: json
  a_format :: json
  a_bullets :: json
  a_tag :: json

definition default_args :: "json \<Rightarrow> json \<Rightarrow> json \<Rightarrow> 'd session_args" where
  "default_args g b c =
     \<lparr>a_game = g, a_buy_in = b, a_cash_out = c, a_location = JStr ''Unknown'',
      a_hours_played = JNull, a_notes = JStr '''', a_date = None, a_stake = JNull,
      a_format = JStr ''cash'', a_bullets = JInt 1, a_tag = JNull\<rparr>"

text \<open>\<open>_infer_stake_from_game\<close>: \<open>game.split()\<close> raises \<open>AttributeError\<close> unless \<open>game\<close> is a string.\<close>

definition infer_stake_from_game :: "json \<Rightarrow> error + string" where
  "infer_stake_from_game g =
     (case g of
        JStr s \<Rightarrow>
          (case split_ws s of
             [] \<Rightarrow> Inr ''unknown''
           | p # ps \<Rightarrow> if CHR ''/'' \<in> set p then Inr p else Inr ''unknown'')
      | _ \<Rightarrow> Inl AttributeError)"

text \<open>
  \<open>Session.__init__\<close>, statement by statement; \<open>now\<close> is what \<open>datetime.now()\<close> returns.
  A \<open>datetime\<close> is always true, so \<open>date or datetime.now()\<close> keeps a supplied date.
\<close>

definition Session_init :: "'d pylib \<Rightarrow> 'd \<Rightarrow> 'd session_args \<Rightarrow> error + 'd session" where
  "Session_init lib now a =
     (case py_float lib (a_buy_in a) of
        Inl e \<Rightarrow> Inl e
      | Inr b \<Rightarrow>
     (case py_float lib (a_cash_out a) of
        Inl e \<Rightarrow> Inl e
      | Inr c \<Rightarrow>
     (case (if truthy (a_stake a) then Inr (a_stake a)
            else map_sum id JStr (infer_stake_from_game (a_game a))) of
        Inl e \<Rightarrow> Inl e
      | Inr st \<Rightarrow>
     (case (if a_bullets a \<noteq> JNull then py_int lib (a_bullets a) else Inr 1) of
        Inl e \<Rightarrow> Inl e
      | Inr n \<Rightarrow>
          Inr \<lparr>game = a_game a, buy_in = JFloat b, cash_out = JFloat c,
               location = a_location a, hours_played = a_hours_played a,
               notes' = a_notes a,
               date = (case a_date a of Some d \<Rightarrow> d | None \<Rightarrow> now),
               stake = st, format = a_format a, bullets = n,
               tag = py_or (a_tag a) (JStr '''')\<rparr>))))"

text \<open>
  The property \<open>profit\<close>: \<open>self.cash_out - self.buy_in\<close>, a \<open>TypeError\<close> unless both are
  numbers.
  The property has no setter, so the assignment \<open>s.profit = v\<close> raises \<open>AttributeError\<close>
  and changes nothing.
\<close>

definition py_sub :: "json \<Rightarrow> json \<Rightarrow> error + rat" where
  "py_sub x y =
     (case (num_of x, num_of y) of (Some a, Some b) \<Rightarrow> Inr (a - b) | _ \<Rightarrow> Inl TypeError)"

definition profit :: "'d session \<Rightarrow> error + rat" where
  "profit s = py_sub (cash_out s) (buy_in s)"

definition set_profit :: "'d session \<Rightarrow> rat \<Rightarrow> error + 'd session" where
  "set_profit s v = Inl AttributeError"

text \<open>
  The property \<open>hourly_rate\<close> (the second definition): None when \<open>hours_played\<close> is None or
  \<open>hours_played <= 0\<close>, else \<open>self.profit / self.hours_played\<close>. Comparing a string, a list
  or a dict with 0 raises \<open>TypeError\<close>.
\<close>

definition hourly_rate :: "'d session \<Rightarrow> error + rat option" where
  "hourly_rate s =
     (if hours_played s = JNull then Inr None
      else (case num_of (hours_played s) of
              None \<Rightarrow> Inl TypeError
            | Some h \<Rightarrow>
                if h \<le> 0 then Inr None
                else (case profit s of Inl e \<Rightarrow> Inl e | Inr p \<Rightarrow> Inr (Some (p / h)))))"

section \<open>models.py: Bankroll\<close>

record 'd bankroll =
  starting_amount :: rat
  sessions :: "'d session list"

definition Bankroll_init :: "rat \<Rightarrow> error + 'd bankroll" where
  "Bankroll_init start =
     (if start < 0 then Inl ValueError
      else Inr \<lparr>starting_amount = start, sessions = []\<rparr>)"

definition add_session :: "'d bankroll \<Rightarrow> 'd session \<Rightarrow> 'd bankroll" where
  "add_session roll s = roll\<lparr>sessions := sessions roll @ [s]\<rparr>"

text \<open>The loop of \<open>bankroll_history\<close>: \<open>current += s.profit; history.append(current)\<close>.\<close>

fun history_loop :: "rat list \<Rightarrow> rat \<Rightarrow> 'd session list \<Rightarrow> error + rat list" where
  "history_loop history current [] = Inr history"
| "history_loop history current (s # ss) =
     (case profit s of
        Inl e \<Rightarrow> Inl e
      | Inr p \<Rightarrow> history_loop (history @ [current + p]) (current + p) ss)"

definition bankroll_history :: "'d bankroll \<Rightarrow> error + rat list" where
  "bankroll_history roll = history_loop [] (starting_amount roll) (sessions roll)"

section \<open>storage.py\<close>

text \<open>
  \<open>_session_to_dict\<close>. A \<open>datetime\<close> is always true, so \<open>date\<close> is written as its ISO
  string; every \<open>Session\<close> has the attributes \<open>bullets\<close>, \<open>tag\<close>, \<open>format\<close> and
  \<open>stake\<close>, so \<open>getattr\<close> never takes its default.
\<close>

definition session_to_dict :: "'d pylib \<Rightarrow> 'd session \<Rightarrow> (string \<times> json) list" where
  "session_to_dict lib s =
     [(''game'', game s),
      (''buy_in'', buy_in s),
      (''cash_out'', cash_out s),
      (''location'', location s),
      (''hours_played'', hours_played s),
      (''notes'', notes' s),
      (''date'', JStr (isoformat lib (date s))),
      (''bullets'', JInt (bullets s)),
      (''tag'', tag s),
      (''format'', format s),
      (''stake'', stake s)]"

text \<open>
  \<open>_session_from_dict\<close>. \<open>d.get\<close> raises \<open>AttributeError\<close> unless \<open>d\<close> is a dict;
  \<open>datetime.fromisoformat\<close> raises \<open>TypeError\<close> unless it is given a string and
  \<open>ValueError\<close> on a string that is no ISO date.
\<close>

definition parse_date :: "'d pylib \<Rightarrow> json \<Rightarrow> error + 'd option" where
  "parse_date lib date_str =
     (if truthy date_str then
        (case date_str of
           JStr str \<Rightarrow>
             (case fromisoformat lib str of None \<Rightarrow> Inl ValueError | Some d \<Rightarrow> Inr (Some d))
         | _ \<Rightarrow> Inl TypeError)
      else Inr None)"

definition session_from_dict :: "'d pylib \<Rightarrow> 'd \<Rightarrow> json \<Rightarrow> error + 'd session" where
  "session_from_dict lib now j =
     (case j of
        JObj d \<Rightarrow>
          (case parse_date lib (dget d ''date'') of
             Inl e \<Rightarrow> Inl e
           | Inr dt \<Rightarrow>
               Session_init lib now
                 \<lparr>a_game = dget d ''game'',
                  a_buy_in = dget_default d ''buy_in'' (JFloat 0),
                  a_cash_out = dget_default d ''cash_out'' (JFloat 0),
                  a_location = py_or (dget d ''location'') (JStr ''Unknown''),
                  a_hours_played = dget d ''hours_played'',
                  a_notes = py_or (dget d ''notes'') (JStr ''''),
                  a_date = dt,
                  a_stake = dget d ''stake'',
                  a_format = dget d ''format'',
                  a_bullets = dget d ''bullets'',
                  a_tag = dget d ''tag''\<rparr>)
      | _ \<Rightarrow> Inl AttributeError)"

text \<open>
  \<open>save_bankroll\<close> writes this document to \<open>data/sessions.json\<close>; \<open>json.load\<close> reads
  back what \<open>json.dump\<close> wrote. The file is \<open>None\<close> while it does not exist. Failures of
  the file system are not modelled.
\<close>

definition save_payload :: "'d pylib \<Rightarrow> 'd bankroll \<Rightarrow> json" where
  "save_payload lib roll =
     JObj [(''sessions'', JArr (map (\<lambda>s. JObj (session_to_dict lib s)) (sessions roll)))]"

definition save_bankroll :: "'d pylib \<Rightarrow> 'd bankroll \<Rightarrow> json option" where
  "save_bankroll lib roll = Some (save_payload lib roll)"

text \<open>What a \<open>for\<close> loop iterates over: the items of a list, the keys of a dict, the characters of a string.\<close>

fun py_iter :: "json \<Rightarrow> error + json list" where
  "py_iter (JArr xs) = Inr xs"
| "py_iter (JObj kvs) = Inr (map (\<lambda>kv. JStr (fst kv)) kvs)"
| "py_iter (JStr s) = Inr (map (\<lambda>c. JStr [c]) s)"
| "py_iter _ = Inl TypeError"

fun load_loop :: "'d pylib \<Rightarrow> 'd \<Rightarrow> 'd bankroll \<Rightarrow> json list \<Rightarrow> error + 'd bankroll" where
  "load_loop lib now roll [] = Inr roll"
| "load_loop lib now roll (s_dict # rest) =
     (case session_from_dict lib now s_dict of
        Inl e \<Rightarrow> Inl e
      | Inr s \<Rightarrow> load_loop lib now (add_session roll s) rest)"

text \<open>\<open>load_bankroll\<close>: \<open>Inr None\<close> when there is no file; \<open>Bankroll()\<close> starts at 0.\<close>

definition load_bankroll :: "'d pylib \<Rightarrow> 'd \<Rightarrow> json option \<Rightarrow> error + 'd bankroll option" where
  "load_bankroll lib now file =
     (case file of
        None \<Rightarrow> Inr None
      | Some data \<Rightarrow>
          (case data of
             JObj kvs \<Rightarrow>
               (case py_iter (dget_default kvs ''sessions'' (JArr [])) of
                  Inl e \<Rightarrow> Inl e
                | Inr items \<Rightarrow>
                    map_sum id Some
                      (load_loop lib now \<lparr>starting_amount = 0, sessions = []\<rparr> items))
           | _ \<Rightarrow> Inl AttributeError))"

section \<open>api.py\<close>

text \<open>
  The process holds one \<open>Bankroll\<close> in the global \<open>bankroll\<close> and the file on disk. A
  handler takes the parsed JSON object of the request (the empty dict when there is none)
  and returns the response with the new state. An exception that no \<open>except\<close> clause
  catches leaves the handler: Flask answers 500, and what the handler had changed before
  stays changed.
\<close>

record 'd app =
  bankroll :: "'d bankroll"
  disk :: "json option"

datatype body = Error_body string | Ok_body | Ok_session json | Unhandled error

datatype response = Response (status: nat) (body: body)

text \<open>\<open>session_to_json\<close> reads the properties \<open>profit\<close> and \<open>hourly_rate\<close>, which may raise.\<close>

definition session_to_json :: "'d pylib \<Rightarrow> 'd session \<Rightarrow> error + json" where
  "session_to_json lib s =
     (case profit s of
        Inl e \<Rightarrow> Inl e
      | Inr p \<Rightarrow>
     (case hourly_rate s of
        Inl e \<Rightarrow> Inl e
      | Inr hr \<Rightarrow>
          Inr (JObj
            [(''date'', JStr (isoformat lib (date s))),
             (''game'', game s),
             (''buy_in'', buy_in s),
             (''cash_out'', cash_out s),
             (''profit'', JFloat p),
             (''hours_played'', hours_played s),
             (''hourly_rate'', (case hr of None \<Rightarrow> JNull | Some r \<Rightarrow> JFloat r)),
             (''location'', location s),
             (''notes'', notes' s),
             (''bullets'', JInt (bullets s)),
             (''tag'', tag s),
             (''format'', format s),
             (''stake'', stake s)])))"

subsection \<open>POST /api/sessions\<close>

text \<open>
  \<open>float(data["buy_in"])\<close> and \<open>float(data["cash_out"])\<close> stand in one \<open>try\<close> whose
  \<open>except\<close> clause names \<open>KeyError\<close> and \<open>ValueError\<close> only.
\<close>

definition required_float :: "'d pylib \<Rightarrow> (string \<times> json) list \<Rightarrow> string \<Rightarrow> error + rat" where
  "required_float lib data k =
     (case dindex data k of Inl e \<Rightarrow> Inl e | Inr v \<Rightarrow> py_float lib v)"

definition invalid_or_unhandled :: "error \<Rightarrow> response" where
  "invalid_or_unhandled e =
     (if e = KeyError \<or> e = ValueError
      then Response 400 (Error_body ''Invalid buy_in/cash_out'')
      else Response 500 (Unhandled e))"

text \<open>
  The clause \<open>except (TypeError, ValueError)\<close>, which guards the conversions of
  \<open>hours_played\<close> and \<open>bullets\<close> here and in the PUT branch below: any other exception
  passes through it and leaves the handler.
\<close>

definition type_or_value :: "error \<Rightarrow> bool" where
  "type_or_value e = (e = TypeError \<or> e = ValueError)"

definition post_hours :: "'d pylib \<Rightarrow> (string \<times> json) list \<Rightarrow> error + json" where
  "post_hours lib data =
     (let h = dget data ''hours_played'' in
      if h \<noteq> JNull then
        (case py_float lib h of
           Inl e \<Rightarrow> (if type_or_value e then Inr JNull else Inl e)
         | Inr r \<Rightarrow> Inr (JFloat r))
      else Inr JNull)"

definition post_bullets :: "'d pylib \<Rightarrow> (string \<times> json) list \<Rightarrow> error + int" where
  "post_bullets lib data =
     (let b = dget data ''bullets'' in
      if b \<noteq> JNull \<and> b \<noteq> JStr '''' then
        (case py_int lib b of
           Inl e \<Rightarrow> (if type_or_value e then Inr 1 else Inl e)
         | Inr n \<Rightarrow> Inr n)
      else Inr 1)"

text \<open>The arguments of the call \<open>Session(...)\<close>, from the body and the four converted values.\<close>

definition post_args :: "(string \<times> json) list \<Rightarrow> rat \<Rightarrow> rat \<Rightarrow> json \<Rightarrow> int \<Rightarrow> 'd session_args" where
  "post_args data b c h n =
     \<lparr>a_game = dget data ''game'',
      a_buy_in = JFloat b,
      a_cash_out = JFloat c,
      a_location = py_or (dget data ''location'') (JStr ''Unknown''),
      a_hours_played = h,
      a_notes = py_or (dget data ''notes'') (JStr ''''),
      a_date = None,
      a_stake = dget data ''stake'',
      a_format = dget data ''format'',
      a_bullets = JInt n,
      a_tag = dget data ''tag''\<rparr>"

definition api_sessions_post ::
  "'d pylib \<Rightarrow> 'd \<Rightarrow> (string \<times> json) list \<Rightarrow> 'd app \<Rightarrow> response \<times> 'd app" where
  "api_sessions_post lib now data st =
     (case required_float lib data ''buy_in'' of
        Inl e \<Rightarrow> (invalid_or_unhandled e, st)
      | Inr b \<Rightarrow>
     (case required_float lib data ''cash_out'' of
        Inl e \<Rightarrow> (invalid_or_unhandled e, st)
      | Inr c \<Rightarrow>
     (case post_hours lib data of
        Inl e \<Rightarrow> (Response 500 (Unhandled e), st)
      | Inr h \<Rightarrow>
     (case post_bullets lib data of
        Inl e \<Rightarrow> (Response 500 (Unhandled e), st)
      | Inr n \<Rightarrow>
     (case Session_init lib now (post_args data b c h n) of
        Inl e \<Rightarrow> (Response 400 (Error_body ''Could not create session''), st)
      | Inr s \<Rightarrow>
          (let roll = add_session (bankroll st) s;
               st' = \<lparr>bankroll = roll, disk = save_bankroll lib roll\<rparr>
           in (case session_to_json lib s of
                 Inl e \<Rightarrow> (Response 500 (Unhandled e), st')
               | Inr j \<Rightarrow> (Response 201 (Ok_session j), st'))))))))"

subsection \<open>DELETE and PUT /api/sessions/<index>\<close>

text \<open>
  The handler \<open>api_session_modify(index)\<close>. Flask's converter \<open><int:index>\<close> hands it
  non-negative integers only; the handler checks both bounds all the same, and so does the
  model, for every integer.
\<close>

datatype http_method = DELETE | PUT

definition has_key :: "(string \<times> json) list \<Rightarrow> string \<Rightarrow> bool" where
  "has_key data k = (map_of data k \<noteq> None)"

text \<open>
  The local function \<open>maybe_float\<close> of the PUT branch. Its \<open>except\<close> clause names
  \<open>TypeError\<close> and \<open>ValueError\<close>; the \<open>OverflowError\<close> of \<open>float\<close> leaves it.
\<close>

definition maybe_float ::
  "'d pylib \<Rightarrow> (string \<times> json) list \<Rightarrow> string \<Rightarrow> json \<Rightarrow> error + json" where
  "maybe_float lib data k current =
     (if \<not> has_key data k then Inr current
      else (let raw = dget data k in
            if raw = JNull \<or> raw = JStr '''' then Inr JNull
            else (case py_float lib raw of
                    Inl e \<Rightarrow> (if type_or_value e then Inr current else Inl e)
                  | Inr r \<Rightarrow> Inr (JFloat r))))"

text \<open>
  \<open>int(data["bullets"])\<close> in its \<open>try\<close>; the fallback is
  \<open>getattr(s, "bullets", 1) or 1\<close>.
\<close>

definition put_bullets :: "'d pylib \<Rightarrow> (string \<times> json) list \<Rightarrow> 'd session \<Rightarrow> error + int" where
  "put_bullets lib data s =
     (case py_int lib (dget data ''bullets'') of
        Inl e \<Rightarrow> (if type_or_value e then Inr (if bullets s \<noteq> 0 then bullets s else 1) else Inl e)
      | Inr n \<Rightarrow> Inr n)"

text \<open>
  The assignments of the PUT branch to the session \<open>s\<close>, in the order of the source. The
  first six cannot raise.
\<close>

definition put_strings :: "(string \<times> json) list \<Rightarrow> 'd session \<Rightarrow> 'd session" where
  "put_strings data s0 =
     (let s1 = (if has_key data ''game'' then s0\<lparr>game := dget data ''game''\<rparr> else s0);
          s2 = (if has_key data ''location''
                then s1\<lparr>location := py_or (dget data ''location'') (JStr ''Unknown'')\<rparr> else s1);
          s3 = (if has_key data ''notes''
                then s2\<lparr>notes' := py_or (dget data ''notes'') (JStr '''')\<rparr> else s2);
          s4 = (if has_key data ''format'' then s3\<lparr>format := dget data ''format''\<rparr> else s3);
          s5 = (if has_key data ''stake'' then s4\<lparr>stake := dget data ''stake''\<rparr> else s4);
          s6 = (if has_key data ''tag'' then s5\<lparr>tag := dget data ''tag''\<rparr> else s5)
      in s6)"

text \<open>
  The assignments to \<open>bullets\<close>, \<open>buy_in\<close>, \<open>cash_out\<close> and \<open>hours_played\<close>. The
  session is a mutable object: when a conversion raises, the assignments made before it
  stay and the later ones are not made. The result is the exception, if any, and the
  session as the handler leaves it.
\<close>

definition put_numbers ::
  "'d pylib \<Rightarrow> (string \<times> json) list \<Rightarrow> 'd session \<Rightarrow> error option \<times> 'd session" where
  "put_numbers lib data s6 =
     (case (if has_key data ''bullets''
            then (case put_bullets lib data s6 of
                    Inl e \<Rightarrow> Inl e
                  | Inr n \<Rightarrow> Inr (s6\<lparr>bullets := n\<rparr>))
            else Inr s6) of
        Inl e \<Rightarrow> (Some e, s6)
      | Inr s7 \<Rightarrow>
          (let old_buy_in = buy_in s7;
               old_cash_out = cash_out s7;
               old_hours = hours_played s7
           in (case maybe_float lib data ''buy_in'' old_buy_in of
                 Inl e \<Rightarrow> (Some e, s7)
               | Inr b \<Rightarrow>
              (case maybe_float lib data ''cash_out'' old_cash_out of
                 Inl e \<Rightarrow> (Some e, s7\<lparr>buy_in := b\<rparr>)
               | Inr c \<Rightarrow>
              (case maybe_float lib data ''hours_played'' old_hours of
                 Inl e \<Rightarrow> (Some e, s7\<lparr>buy_in := b, cash_out := c\<rparr>)
               | Inr h \<Rightarrow> (None, s7\<lparr>buy_in := b, cash_out := c, hours_played := h\<rparr>))))))"

text \<open>
  \<open>put_fields\<close> is the session after these assignments, \<open>put_raised\<close> the exception
  that cut them short.
\<close>

definition put_fields :: "'d pylib \<Rightarrow> (string \<times> json) list \<Rightarrow> 'd session \<Rightarrow> 'd session" where
  "put_fields lib data s0 = snd (put_numbers lib data (put_strings data s0))"

definition put_raised :: "'d pylib \<Rightarrow> (string \<times> json) list \<Rightarrow> 'd session \<Rightarrow> error option" where
  "put_raised lib data s0 = fst (put_numbers lib data (put_strings data s0))"

text \<open>
  One PUT, seen from \<open>buy_in\<close> and \<open>cash_out\<close> alone: \<open>buy_in\<close> is assigned first,
  \<open>cash_out\<close> only if the conversion of \<open>buy_in\<close> has not raised.
\<close>

definition put_money :: "'d pylib \<Rightarrow> json \<times> json \<Rightarrow> (string \<times> json) list \<Rightarrow> json \<times> json" where
  "put_money lib bc data =
     (case maybe_float lib data ''buy_in'' (fst bc) of
        Inl e \<Rightarrow> bc
      | Inr b \<Rightarrow>
          (case maybe_float lib data ''cash_out'' (snd bc) of
             Inl e \<Rightarrow> (b, snd bc)
           | Inr c \<Rightarrow> (b, c)))"

text \<open>
  \<open>s.profit = s.cash_out - s.buy_in\<close> inside \<open>try ... except AttributeError: pass\<close>,
  guarded by \<open>s.buy_in is not None and s.cash_out is not None\<close>.
\<close>

definition put_recompute :: "'d session \<Rightarrow> error + 'd session" where
  "put_recompute s =
     (if buy_in s \<noteq> JNull \<and> cash_out s \<noteq> JNull then
        (case py_sub (cash_out s) (buy_in s) of
           Inl e \<Rightarrow> Inl e
         | Inr v \<Rightarrow>
             (case set_profit s v of
                Inl e \<Rightarrow> (if e = AttributeError then Inr s else Inl e)
              | Inr s' \<Rightarrow> Inr s'))
      else Inr s)"

definition del_at :: "nat \<Rightarrow> 'a list \<Rightarrow> 'a list" where
  "del_at i xs = take i xs @ drop (Suc i) xs"

definition api_session_modify ::
  "'d pylib \<Rightarrow> http_method \<Rightarrow> int \<Rightarrow> (string \<times> json) list \<Rightarrow> 'd app \<Rightarrow> response \<times> 'd app" where
  "api_session_modify lib meth index data st =
     (if index < 0 \<or> index \<ge> int (length (sessions (bankroll st)))
      then (Response 400 (Error_body ''Invalid index''), st)
      else
        (let i = nat index; roll = bankroll st in
         case meth of
           DELETE \<Rightarrow>
             (let roll' = roll\<lparr>sessions := del_at i (sessions roll)\<rparr>
              in (Response 200 Ok_body, \<lparr>bankroll = roll', disk = save_bankroll lib roll'\<rparr>))
         | PUT \<Rightarrow>
             (let s = put_fields lib data (sessions roll ! i);
                  roll' = roll\<lparr>sessions := (sessions roll)[i := s]\<rparr>
              in (case put_raised lib data (sessions roll ! i) of
                    Some e \<Rightarrow> (Response 500 (Unhandled e), st\<lparr>bankroll := roll'\<rparr>)
                  | None \<Rightarrow>
                 (case put_recompute s of
                    Inl e \<Rightarrow> (Response 500 (Unhandled e), st\<lparr>bankroll := roll'\<rparr>)
                  | Inr s' \<Rightarrow>
                      (let roll'' = roll\<lparr>sessions := (sessions roll)[i := s']\<rparr>;
                           st' = \<lparr>bankroll = roll'', disk = save_bankroll lib roll''\<rparr>
                       in (case session_to_json lib s' of
                             Inl e \<Rightarrow> (Response 500 (Unhandled e), st')
                           | Inr j \<Rightarrow> (Response 200 (Ok_session j), st'))))))))"

text \<open>A sequence of PUT requests on one index, and the index check of the handler.\<close>

definition put_many ::
  "'d pylib \<Rightarrow> int \<Rightarrow> (string \<times> json) list list \<Rightarrow> 'd app \<Rightarrow> 'd app" where
  "put_many lib index datas st =
     foldl (\<lambda>st data. snd (api_session_modify lib PUT index data st)) st datas"

definition valid_index :: "'d app \<Rightarrow> int \<Rightarrow> bool" where
  "valid_index st index = (0 \<le> index \<and> index < int (length (sessions (bankroll st))))"

subsection \<open>The states the handlers reach\<close>

text \<open>
  A PUT payload clears a numeric field when it supplies null or the empty string for it.
  \<open>reachable lib clr st\<close>: the state \<open>st\<close> is reached from an empty bankroll by
  constructing sessions and adding them (as \<open>seed_example_data\<close>, \<open>load_bankroll\<close> and
  the command line do) and by POST, DELETE and PUT requests; \<open>clr\<close> tells whether some
  PUT on the way cleared \<open>buy_in\<close> or \<open>cash_out\<close>.
\<close>

definition clears :: "(string \<times> json) list \<Rightarrow> string \<Rightarrow> bool" where
  "clears data k = (has_key data k \<and> (dget data k = JNull \<or> dget data k = JStr ''''))"

inductive reachable :: "'d pylib \<Rightarrow> bool \<Rightarrow> 'd app \<Rightarrow> bool" for lib :: "'d pylib" where
  start: "reachable lib False \<lparr>bankroll = \<lparr>starting_amount = a, sessions = []\<rparr>, disk = d\<rparr>"
| construct:
    "reachable lib clr st \<Longrightarrow> Session_init lib now a = Inr s \<Longrightarrow>
     reachable lib clr (st\<lparr>bankroll := add_session (bankroll st) s\<rparr>)"
| post:
    "reachable lib clr st \<Longrightarrow> reachable lib clr (snd (api_sessions_post lib now data st))"
| delete:
    "reachable lib clr st \<Longrightarrow>
     reachable lib clr (snd (api_session_modify lib DELETE index data st))"
| put:
    "reachable lib clr st \<Longrightarrow>
     reachable lib (clr \<or> clears data ''buy_in'' \<or> clears data ''cash_out'')
       (snd (api_session_modify lib PUT index data st))"

text \<open>The shape of a money field: a float, or None once a PUT has cleared one.\<close>

definition money_shape :: "bool \<Rightarrow> json \<Rightarrow> bool" where
  "money_shape clr v = ((\<exists>r. v = JFloat r) \<or> (clr \<and> v = JNull))"

subsection \<open>GET /api/stats/session_length\<close>

text \<open>
  \<open>pd.cut(x, bins, labels, right=False)\<close> puts \<open>x\<close> into the interval
  \<open>[bins[i], bins[i+1])\<close> that holds it and gives no bucket (NaN) to a value below the first
  or not below the last edge: pandas finds the interval with \<open>searchsorted(x, side="right")\<close>.
  The labels of the source are \<open>0-2h\<close>, \<open>2-3h\<close>, \<open>3-4h\<close> and \<open>4h+\<close>, here the
  indices 0 to 3.
\<close>

definition searchsorted_right :: "rat list \<Rightarrow> rat \<Rightarrow> nat" where
  "searchsorted_right edges x = length (takeWhile (\<lambda>b. b \<le> x) edges)"

definition cut_left_closed :: "rat list \<Rightarrow> rat \<Rightarrow> nat option" where
  "cut_left_closed edges x =
     (let k = searchsorted_right edges x in
      if k = 0 \<or> k = length edges then None else Some (k - 1))"

definition bins :: "rat list" where
  "bins = [0, 2, 3, 4, 999]"

definition length_bucket :: "rat \<Rightarrow> nat option" where
  "length_bucket h = cut_left_closed bins h"

text \<open>
  One row of \<open>sessions_to_dataframe\<close> after \<open>dropna\<close> and \<open>pd.cut\<close>: the bucket and the
  profit of a session whose hours are known. A session without hours gives no row; hours that
  are no number make \<open>pd.cut\<close> raise.
\<close>

fun bucket_rows :: "'d session list \<Rightarrow> error + (nat option \<times> rat) list" where
  "bucket_rows [] = Inr []"
| "bucket_rows (s # ss) =
     (case profit s of
        Inl e \<Rightarrow> Inl e
      | Inr p \<Rightarrow>
     (case hourly_rate s of
        Inl e \<Rightarrow> Inl e
      | Inr hr \<Rightarrow>
     (case bucket_rows ss of
        Inl e \<Rightarrow> Inl e
      | Inr rows \<Rightarrow>
          if hours_played s = JNull then Inr rows
          else (case num_of (hours_played s) of
                  None \<Rightarrow> Inl TypeError
                | Some h \<Rightarrow> Inr ((length_bucket h, p) # rows)))))"

text \<open>
  For each label the number of rows in the bucket and the sum of their profits (the mean the
  handler also returns is their quotient). \<open>groupby\<close> on the categorical column lists
  all four labels, also the empty ones; without any row the handler returns no bucket at all.
\<close>

definition bucket_stats :: "(nat option \<times> rat) list \<Rightarrow> nat \<Rightarrow> nat \<times> rat" where
  "bucket_stats rows k =
     (let ps = map snd (filter (\<lambda>r. fst r = Some k) rows) in (length ps, sum_list ps))"

definition stats_session_length :: "'d bankroll \<Rightarrow> error + (nat \<times> nat \<times> rat) list" where
  "stats_session_length roll =
     (case bucket_rows (sessions roll) of
        Inl e \<Rightarrow> Inl e
      | Inr rows \<Rightarrow>
          if rows = [] then Inr []
          else Inr (map (\<lambda>k. (k, bucket_stats rows k)) [0 ..< 4]))"

section \<open>A sample library and sample data\<close>

text \<open>
  One instance of the library parameters, for evaluating the model on concrete inputs:
  plain decimal literals (a sign, digits, optionally a point and more digits), which
  \<open>float\<close> and \<open>int\<close> read as written here, and dates without time zone and
  microseconds printed as \<open>YYYY-MM-DDTHH:MM:SS\<close>.
\<close>

definition digit_of :: "char \<Rightarrow> nat option" where
  "digit_of c = (let n = (of_char c :: nat) in if 48 \<le> n \<and> n \<le> 57 then Some (n - 48) else None)"

fun digits_value :: "nat \<Rightarrow> string \<Rightarrow> nat option" where
  "digits_value acc [] = Some acc"
| "digits_value acc (c # cs) =
     (case digit_of c of None \<Rightarrow> None | Some d \<Rightarrow> digits_value (10 * acc + d) cs)"

definition decimal_nat :: "string \<Rightarrow> nat option" where
  "decimal_nat s = (if s = [] then None else digits_value 0 s)"

definition decimal_int :: "string \<Rightarrow> int option" where
  "decimal_int s =
     (case s of
        [] \<Rightarrow> None
      | c # cs \<Rightarrow>
          if c = CHR ''-'' then map_option (\<lambda>n. - int n) (decimal_nat cs)
          else map_option int (decimal_nat s))"

definition decimal_unsigned :: "string \<Rightarrow> rat option" where
  "decimal_unsigned s =
     (let ip = takeWhile (\<lambda>c. c \<noteq> CHR ''.'') s; rest = dropWhile (\<lambda>c. c \<noteq> CHR ''.'') s in
      case rest of
        [] \<Rightarrow> map_option of_nat (decimal_nat ip)
      | dot # fp \<Rightarrow>
          (case (decimal_nat ip, decimal_nat fp) of
             (Some a, Some b) \<Rightarrow> Some (of_nat a + of_nat b / 10 ^ length fp)
           | _ \<Rightarrow> None))"

definition decimal_rat :: "string \<Rightarrow> rat option" where
  "decimal_rat s =
     (case s of
        [] \<Rightarrow> None
      | c # cs \<Rightarrow>
          if c = CHR ''-'' then map_option uminus (decimal_unsigned cs)
          else decimal_unsigned s)"

record datetime =
  year :: nat
  month :: nat
  day :: nat
  hour :: nat
  minute :: nat
  second :: nat

fun pad :: "nat \<Rightarrow> nat \<Rightarrow> string" where
  "pad 0 k = []"
| "pad (Suc n) k = pad n (k div 10) @ [char_of (48 + k mod 10)]"

definition iso_of :: "datetime \<Rightarrow> string" where
  "iso_of d = pad 4 (year d) @ ''-'' @ pad 2 (month d) @ ''-'' @ pad 2 (day d) @ ''T''
              @ pad 2 (hour d) @ '':'' @ pad 2 (minute d) @ '':'' @ pad 2 (second d)"

definition iso_fields :: "string \<Rightarrow> nat option list" where
  "iso_fields s = map decimal_nat
     [take 4 s, take 2 (drop 5 s), take 2 (drop 8 s), take 2 (drop 11 s),
      take 2 (drop 14 s), take 2 (drop 17 s)]"

definition of_iso :: "string \<Rightarrow> datetime option" where
  "of_iso s =
     (if length s = 19 \<and> map (\<lambda>i. s ! i) [4, 7, 10, 13, 16] = ''--T::'' then
        (case iso_fields s of
           [Some y, Some mo, Some d, Some h, Some mi, Some se] \<Rightarrow>
             Some \<lparr>year = y, month = mo, day = d, hour = h, minute = mi, second = se\<rparr>
         | _ \<Rightarrow> None)
      else None)"

definition sample_lib :: "datetime pylib" where
  "sample_lib = \<lparr>float_of_str = decimal_rat, int_of_str = decimal_int,
                 isoformat = iso_of, fromisoformat = of_iso\<rparr>"

definition new_year :: datetime where
  "new_year = \<lparr>year = 2025, month = 1, day = 1, hour = 0, minute = 0, second = 0\<rparr>"

text \<open>The first two sessions of the scenarios: buy-in 20, cash-out 42, 2.5 hours; buy-in 20, cash-out 0, 1.2 hours.\<close>

definition session_a :: "datetime session" where
  "session_a =
     \<lparr>game = JStr ''0.10/0.20 NLH'', buy_in = JFloat 20, cash_out = JFloat 42,
      location = JStr ''Online'', hours_played = JFloat (5 / 2), notes' = JStr ''Ran hot'',
      date = new_year, stake = JStr ''0.10/0.20'', format = JStr ''cash'', bullets = 1,
      tag = JStr ''A-game''\<rparr>"

definition session_b :: "datetime session" where
  "session_b =
     \<lparr>game = JStr ''0.10/0.20 NLH'', buy_in = JFloat 20, cash_out = JFloat 0,
      location = JStr ''IRL'', hours_played = JFloat (6 / 5), notes' = JStr ''Coolered'',
      date = new_year, stake = JStr ''0.10/0.20'', format = JStr ''cash'', bullets = 2,
      tag = JStr ''tilt''\<rparr>"

definition roll_ab :: "datetime bankroll" where
  "roll_ab = \<lparr>starting_amount = 0, sessions = [session_a, session_b]\<rparr>"

definition app_ab :: "datetime app" where
  "app_ab = \<lparr>bankroll = roll_ab, disk = save_bankroll sample_lib roll_ab\<rparr>"

text \<open>An \<open>int\<close> that JSON can carry and a float cannot hold.\<close>

definition huge :: int where
  "huge = 10 ^ 400"

text \<open>A request body for POST: the buy-in as a string, the cash-out as a number.\<close>

definition post_body :: "(string \<times> json) list" where
  "post_body = [(''game'', JStr ''0.25/0.50 NLH''), (''buy_in'', JStr ''50''), (''cash_out'', JInt 120),
                (''hours_played'', JFloat (7 / 2))]"

section \<open>Session: the derived values\<close>

text \<open>
  C6. \<open>hourly_rate\<close> is None exactly when \<open>hours_played\<close> is None, zero or negative;
  for positive hours it is the profit divided by the hours (and raises what \<open>profit\<close>
  raises); hours that are no number raise \<open>TypeError\<close>, as the division would.
\<close>

theorem hourly_rate_spec:
  "(hourly_rate s = Inr None) =
     (hours_played s = JNull \<or> (\<exists>h. num_of (hours_played s) = Some h \<and> h \<le> 0))
   \<and> (\<forall>h. num_of (hours_played s) = Some h \<and> 0 < h \<longrightarrow>
          hourly_rate s = map_sum id (\<lambda>p. Some (p / h)) (profit s))
   \<and> (hours_played s \<noteq> JNull \<and> num_of (hours_played s) = None \<longrightarrow>
          hourly_rate s = Inl TypeError)"
  by (auto simp: hourly_rate_def split: option.splits sum.splits)

theorem hourly_rate_spec_witness:
  "num_of (hours_played session_a) = Some (5 / 2) \<and> (0::rat) < 5 / 2
   \<and> profit session_a = Inr 22 \<and> hourly_rate session_a = Inr (Some (44 / 5))"
proof -
  have h: "num_of (hours_played session_a) = Some (5 / 2) \<and> (0::rat) < 5 / 2"
    by (simp add: session_a_def)
  have p: "profit session_a = Inr 22"
    by (simp add: profit_def py_sub_def session_a_def)
  from hourly_rate_spec [of session_a] h
  have "hourly_rate session_a = map_sum id (\<lambda>p. Some (p / (5 / 2))) (profit session_a)"
    by blast
  with h p show ?thesis by simp
qed

section \<open>The PUT and DELETE handlers\<close>

lemma put_recompute_cases: "put_recompute s = Inr s \<or> put_recompute s = Inl TypeError"
  by (simp add: put_recompute_def set_profit_def py_sub_def split: option.splits)

lemma put_sessions:
  assumes "valid_index st index"
  shows "sessions (bankroll (snd (api_session_modify lib PUT index data st))) =
           (sessions (bankroll st))[nat index := put_fields lib data (sessions (bankroll st) ! nat index)]"
proof -
  let ?s = "put_fields lib data (sessions (bankroll st) ! nat index)"
  from put_recompute_cases [of ?s] show ?thesis
  proof
    assume "put_recompute ?s = Inr ?s"
    with assms show ?thesis
      by (simp add: api_session_modify_def valid_index_def Let_def split: sum.splits option.splits)
  next
    assume "put_recompute ?s = Inl TypeError"
    with assms show ?thesis
      by (simp add: api_session_modify_def valid_index_def Let_def split: option.splits)
  qed
qed

lemma put_starting_amount:
  "starting_amount (bankroll (snd (api_session_modify lib PUT index data st))) =
     starting_amount (bankroll st)"
proof -
  let ?s = "put_fields lib data (sessions (bankroll st) ! nat index)"
  from put_recompute_cases [of ?s] show ?thesis
    by (auto simp: api_session_modify_def Let_def split: sum.splits option.splits)
qed

lemma put_valid_index:
  assumes "valid_index st index"
  shows "valid_index (snd (api_session_modify lib PUT index data st)) index"
  using assms put_sessions [OF assms, of lib data] by (simp add: valid_index_def)

lemma valid_index_nat: "valid_index st index \<Longrightarrow> nat index < length (sessions (bankroll st))"
  by (simp add: valid_index_def nat_less_iff)

lemma py_int_error: "py_int lib v = Inl e \<Longrightarrow> type_or_value e"
  by (cases v) (auto simp: type_or_value_def split: option.splits)

lemma put_bullets_ok: "\<exists>n. put_bullets lib data s = Inr n"
  by (cases "py_int lib (dget data ''bullets'')") (auto simp: put_bullets_def dest: py_int_error)

lemma post_bullets_ok: "\<exists>n. post_bullets lib data = Inr n"
  by (cases "py_int lib (dget data ''bullets'')") (auto simp: post_bullets_def Let_def dest: py_int_error)

lemma put_strings_keeps:
  "buy_in (put_strings data s) = buy_in s"
  "cash_out (put_strings data s) = cash_out s"
  "hours_played (put_strings data s) = hours_played s"
  "bullets (put_strings data s) = bullets s"
  "date (put_strings data s) = date s"
  by (simp_all add: put_strings_def Let_def)

lemma put_strings_sets:
  "game (put_strings data s) = (if has_key data ''game'' then dget data ''game'' else game s)"
  "location (put_strings data s) =
     (if has_key data ''location'' then py_or (dget data ''location'') (JStr ''Unknown'')
      else location s)"
  "notes' (put_strings data s) =
     (if has_key data ''notes'' then py_or (dget data ''notes'') (JStr '''') else notes' s)"
  "format (put_strings data s) = (if has_key data ''format'' then dget data ''format'' else format s)"
  "stake (put_strings data s) = (if has_key data ''stake'' then dget data ''stake'' else stake s)"
  "tag (put_strings data s) = (if has_key data ''tag'' then dget data ''tag'' else tag s)"
  by (simp_all add: put_strings_def Let_def)

text \<open>
  What \<open>put_numbers\<close> leaves in the four fields: \<open>bullets\<close> is always assigned (its
  conversion cannot raise in the model), each of the other three only if no earlier
  conversion has raised.
\<close>

lemma put_numbers_result:
  fixes lib :: "'d pylib" and data :: "(string \<times> json) list" and s :: "'d session"
  defines "t \<equiv> (if has_key data ''bullets''
                  then s\<lparr>bullets := (case put_bullets lib data s of Inr n \<Rightarrow> n | Inl e \<Rightarrow> bullets s)\<rparr>
                  else s)"
  shows "put_numbers lib data s =
     (case maybe_float lib data ''buy_in'' (buy_in s) of
        Inl e \<Rightarrow> (Some e, t)
      | Inr b \<Rightarrow>
     (case maybe_float lib data ''cash_out'' (cash_out s) of
        Inl e \<Rightarrow> (Some e, t\<lparr>buy_in := b\<rparr>)
      | Inr c \<Rightarrow>
     (case maybe_float lib data ''hours_played'' (hours_played s) of
        Inl e \<Rightarrow> (Some e, t\<lparr>buy_in := b, cash_out := c\<rparr>)
      | Inr h \<Rightarrow> (None, t\<lparr>buy_in := b, cash_out := c, hours_played := h\<rparr>))))"
proof -
  from put_bullets_ok [of lib data s] obtain n where n: "put_bullets lib data s = Inr n" ..
  show ?thesis
    by (simp add: put_numbers_def t_def n Let_def split: sum.splits)
qed

lemma put_fields_buy_in:
  "buy_in (put_fields lib data s) =
     (case maybe_float lib data ''buy_in'' (buy_in s) of Inl e \<Rightarrow> buy_in s | Inr b \<Rightarrow> b)"
  by (simp add: put_fields_def put_numbers_result put_strings_keeps split: sum.splits)

lemma put_fields_cash_out:
  "cash_out (put_fields lib data s) =
     (case maybe_float lib data ''buy_in'' (buy_in s) of
        Inl e \<Rightarrow> cash_out s
      | Inr b \<Rightarrow>
          (case maybe_float lib data ''cash_out'' (cash_out s) of
             Inl e \<Rightarrow> cash_out s
           | Inr c \<Rightarrow> c))"
  by (simp add: put_fields_def put_numbers_result put_strings_keeps split: sum.splits)

lemma put_fields_hours_played:
  "hours_played (put_fields lib data s) =
     (case maybe_float lib data ''buy_in'' (buy_in s) of
        Inl e \<Rightarrow> hours_played s
      | Inr b \<Rightarrow>
          (case maybe_float lib data ''cash_out'' (cash_out s) of
             Inl e \<Rightarrow> hours_played s
           | Inr c \<Rightarrow>
               (case maybe_float lib data ''hours_played'' (hours_played s) of
                  Inl e \<Rightarrow> hours_played s
                | Inr h \<Rightarrow> h)))"
  by (simp add: put_fields_def put_numbers_result put_strings_keeps split: sum.splits)

lemma put_raised_cases:
  "put_raised lib data s =
     (case maybe_float lib data ''buy_in'' (buy_in s) of
        Inl e \<Rightarrow> Some e
      | Inr b \<Rightarrow>
          (case maybe_float lib data ''cash_out'' (cash_out s) of
             Inl e \<Rightarrow> Some e
           | Inr c \<Rightarrow>
               (case maybe_float lib data ''hours_played'' (hours_played s) of
                  Inl e \<Rightarrow> Some e
                | Inr h \<Rightarrow> None)))"
  by (simp add: put_raised_def put_numbers_result put_strings_keeps split: sum.splits)

lemma put_fields_money:
  "(buy_in (put_fields lib data s), cash_out (put_fields lib data s)) =
     put_money lib (buy_in s, cash_out s) data"
  by (simp add: put_money_def put_fields_buy_in put_fields_cash_out split: sum.splits)

lemma put_many_valid:
  "valid_index st index \<Longrightarrow> valid_index (put_many lib index datas st) index"
  by (induction datas arbitrary: st) (simp_all add: put_many_def put_valid_index)

lemma put_many_session:
  "valid_index st index \<Longrightarrow>
   sessions (bankroll (put_many lib index datas st)) ! nat index =
     foldl (\<lambda>s data. put_fields lib data s) (sessions (bankroll st) ! nat index) datas"
proof (induction datas arbitrary: st)
  case Nil
  then show ?case by (simp add: put_many_def)
next
  case (Cons data datas)
  let ?st = "snd (api_session_modify lib PUT index data st)"
  have v: "valid_index ?st index" using Cons.prems by (rule put_valid_index)
  have "sessions (bankroll ?st) ! nat index = put_fields lib data (sessions (bankroll st) ! nat index)"
    using Cons.prems by (simp add: put_sessions valid_index_nat)
  with Cons.IH [OF v] show ?case by (simp add: put_many_def)
qed

lemma foldl_put_fields_money:
  "(buy_in (foldl (\<lambda>s data. put_fields lib data s) s datas),
    cash_out (foldl (\<lambda>s data. put_fields lib data s) s datas)) =
     foldl (put_money lib) (buy_in s, cash_out s) datas"
proof (induction datas arbitrary: s)
  case Nil
  then show ?case by simp
next
  case (Cons data datas)
  from Cons.IH [of "put_fields lib data s"] show ?case
    by (simp add: put_fields_money)
qed

lemma profit_value:
  "(profit s = Inr p) =
     (\<exists>c b. num_of (cash_out s) = Some c \<and> num_of (buy_in s) = Some b \<and> p = c - b)"
  by (auto simp: profit_def py_sub_def split: option.splits)

text \<open>
  C1. The profit is derived, never stored: \<open>profit\<close> yields a value exactly when
  \<open>cash_out\<close> and \<open>buy_in\<close> are numbers, and the value is their difference; the
  assignment \<open>s.profit = ...\<close> is rejected with \<open>AttributeError\<close>, which the PUT handler
  swallows, so recomputing changes nothing. After any sequence of PUT updates of a session,
  \<open>buy_in\<close> and \<open>cash_out\<close> are what the assignments from \<open>maybe_float\<close> made of the
  payloads, one after the other (\<open>put_money\<close>), and the profit is computed from these.
\<close>

theorem profit_always_derived:
  assumes "valid_index st index"
  shows "\<exists>s'. s' = sessions (bankroll (put_many lib index datas st)) ! nat index
     \<and> (buy_in s', cash_out s') =
          foldl (put_money lib)
            (buy_in (sessions (bankroll st) ! nat index),
             cash_out (sessions (bankroll st) ! nat index)) datas
     \<and> profit s' = py_sub (cash_out s') (buy_in s')
     \<and> (\<forall>p. (profit s' = Inr p) =
            (\<exists>c b. num_of (cash_out s') = Some c \<and> num_of (buy_in s') = Some b \<and> p = c - b))
     \<and> (\<forall>v. set_profit s' v = Inl AttributeError)
     \<and> (put_recompute s' = Inr s' \<or> put_recompute s' = Inl TypeError)"
proof -
  let ?s = "sessions (bankroll (put_many lib index datas st)) ! nat index"
  have "(buy_in ?s, cash_out ?s) =
          foldl (put_money lib)
            (buy_in (sessions (bankroll st) ! nat index),
             cash_out (sessions (bankroll st) ! nat index)) datas"
    using assms by (simp only: put_many_session foldl_put_fields_money)
  moreover have "profit ?s = py_sub (cash_out ?s) (buy_in ?s)"
    by (simp add: profit_def)
  moreover have "\<forall>p. (profit ?s = Inr p) =
            (\<exists>c b. num_of (cash_out ?s) = Some c \<and> num_of (buy_in ?s) = Some b \<and> p = c - b)"
    by (simp add: profit_value)
  moreover have "\<forall>v. set_profit ?s v = Inl AttributeError"
    by (simp add: set_profit_def)
  moreover note put_recompute_cases [of ?s]
  ultimately show ?thesis by blast
qed

lemma app_ab_valid0: "valid_index app_ab 0"
  by (simp add: valid_index_def app_ab_def roll_ab_def)

lemma float_fits: "\<bar>i\<bar> \<le> 1000000 \<Longrightarrow> \<not> float_overflows i"
  by (simp add: float_overflows_def)

theorem profit_always_derived_witness:
  "valid_index app_ab 0
   \<and> profit (sessions (bankroll (put_many sample_lib 0
        [[(''cash_out'', JInt 50)], [(''buy_in'', JStr ''30'')], [(''profit'', JInt 1000)]] app_ab)) ! nat 0)
     = Inr 20"
proof -
  let ?datas = "[[(''cash_out'', JInt 50)], [(''buy_in'', JStr ''30'')], [(''profit'', JInt 1000)]]"
  let ?s = "sessions (bankroll (put_many sample_lib 0 ?datas app_ab)) ! nat 0"
  have f: "float_of_str sample_lib ''30'' = Some 30"
    by (simp add: sample_lib_def) code_simp
  have s0: "sessions (bankroll app_ab) ! nat 0 = session_a"
    by (simp add: app_ab_def roll_ab_def)
  from profit_always_derived [OF app_ab_valid0, of sample_lib ?datas]
  have bc: "(buy_in ?s, cash_out ?s) =
          foldl (put_money sample_lib)
            (buy_in (sessions (bankroll app_ab) ! nat 0),
             cash_out (sessions (bankroll app_ab) ! nat 0)) ?datas"
    and p: "profit ?s = py_sub (cash_out ?s) (buy_in ?s)"
    by simp_all
  have "foldl (put_money sample_lib) (buy_in session_a, cash_out session_a) ?datas
          = (JFloat 30, JFloat 50)"
    by (simp add: put_money_def maybe_float_def has_key_def dget_def f session_a_def float_fits)
  with bc have "buy_in ?s = JFloat 30" "cash_out ?s = JFloat 50"
    unfolding s0 by simp_all
  then have "profit ?s = Inr 20"
    unfolding p by (simp add: py_sub_def)
  with app_ab_valid0 show ?thesis by simp
qed

lemma maybe_float_cases:
  "(\<not> has_key data k \<longrightarrow> maybe_float lib data k cur = Inr cur)
   \<and> (has_key data k \<and> (dget data k = JNull \<or> dget data k = JStr '''') \<longrightarrow>
        maybe_float lib data k cur = Inr JNull)
   \<and> (\<forall>e. has_key data k \<and> dget data k \<noteq> JNull \<and> dget data k \<noteq> JStr ''''
        \<and> py_float lib (dget data k) = Inl e \<longrightarrow>
        maybe_float lib data k cur = (if e = TypeError \<or> e = ValueError then Inr cur else Inl e))
   \<and> (\<forall>r. has_key data k \<and> dget data k \<noteq> JNull \<and> dget data k \<noteq> JStr ''''
        \<and> py_float lib (dget data k) = Inr r \<longrightarrow> maybe_float lib data k cur = Inr (JFloat r))"
  by (auto simp: maybe_float_def type_or_value_def Let_def)

lemma py_float_error:
  "py_float lib v = Inl e \<Longrightarrow>
   (e = TypeError \<and> (v = JNull \<or> (\<exists>xs. v = JArr xs) \<or> (\<exists>kvs. v = JObj kvs)))
   \<or> (e = ValueError \<and> (\<exists>s. v = JStr s \<and> float_of_str lib s = None))
   \<or> (e = OverflowError \<and> (\<exists>i. v = JInt i \<and> float_overflows i))"
  by (cases v) (auto split: option.splits if_splits)

text \<open>
  \<open>maybe_float\<close> raises exactly when the payload holds, under the key, an \<open>int\<close> beyond
  the range of a float: the one exception of \<open>float\<close> that its \<open>except\<close> clause does
  not name.
\<close>

lemma maybe_float_raises:
  "(maybe_float lib data k cur = Inl e) =
     (e = OverflowError \<and> (\<exists>i. map_of data k = Some (JInt i) \<and> float_overflows i))"
proof (cases "map_of data k")
  case None
  then show ?thesis by (simp add: maybe_float_def has_key_def)
next
  case (Some v)
  show ?thesis
  proof (cases "py_float lib v")
    case (Inl e')
    from py_float_error [OF Inl] Some Inl show ?thesis
      by (auto simp: maybe_float_def has_key_def dget_def type_or_value_def)
  next
    case (Inr r)
    with Some show ?thesis
      by (cases v) (auto simp: maybe_float_def has_key_def dget_def split: if_splits)
  qed
qed

lemma put_bullets_strings: "put_bullets lib data (put_strings data s) = put_bullets lib data s"
  by (simp add: put_bullets_def put_strings_keeps split: sum.splits)

lemma put_fields_other:
  "game (put_fields lib data s) = (if has_key data ''game'' then dget data ''game'' else game s)"
  "location (put_fields lib data s) =
     (if has_key data ''location'' then py_or (dget data ''location'') (JStr ''Unknown'')
      else location s)"
  "notes' (put_fields lib data s) =
     (if has_key data ''notes'' then py_or (dget data ''notes'') (JStr '''') else notes' s)"
  "format (put_fields lib data s) = (if has_key data ''format'' then dget data ''format'' else format s)"
  "stake (put_fields lib data s) = (if has_key data ''stake'' then dget data ''stake'' else stake s)"
  "tag (put_fields lib data s) = (if has_key data ''tag'' then dget data ''tag'' else tag s)"
  "date (put_fields lib data s) = date s"
  by (simp_all add: put_fields_def put_numbers_result put_strings_sets put_strings_keeps
      split: sum.splits)

lemma put_fields_bullets:
  "bullets (put_fields lib data s) =
     (if has_key data ''bullets''
      then (case put_bullets lib data s of Inr n \<Rightarrow> n | Inl e \<Rightarrow> bullets s)
      else bullets s)"
  by (simp add: put_fields_def put_numbers_result put_strings_keeps put_bullets_strings
      split: sum.splits)

lemma put_fields_bad_cash_out:
  assumes "float_of_str lib ''not_a_number'' = None"
  shows "put_fields lib [(''cash_out'', JStr ''not_a_number'')] s = s"
    and "put_raised lib [(''cash_out'', JStr ''not_a_number'')] s = None"
  using assms
  by (simp_all add: put_fields_def put_raised_def put_numbers_result put_strings_def Let_def
      has_key_def maybe_float_def dget_def type_or_value_def)

lemma put_response:
  assumes "valid_index st index"
    and "put_raised lib data (sessions (bankroll st) ! nat index) = None"
    and "session_to_json lib (put_fields lib data (sessions (bankroll st) ! nat index)) = Inr j"
  shows "api_session_modify lib PUT index data st =
     (Response 200 (Ok_session j),
      \<lparr>bankroll = (bankroll st)\<lparr>sessions :=
          (sessions (bankroll st))[nat index := put_fields lib data (sessions (bankroll st) ! nat index)]\<rparr>,
       disk = save_bankroll lib ((bankroll st)\<lparr>sessions :=
          (sessions (bankroll st))[nat index := put_fields lib data (sessions (bankroll st) ! nat index)]\<rparr>)\<rparr>)"
proof -
  let ?s = "put_fields lib data (sessions (bankroll st) ! nat index)"
  from assms(3) have "profit ?s \<noteq> Inl TypeError"
    by (auto simp: session_to_json_def split: sum.splits)
  then have "put_recompute ?s \<noteq> Inl TypeError"
    by (auto simp: put_recompute_def profit_def set_profit_def split: sum.splits if_splits)
  with put_recompute_cases [of ?s] have "put_recompute ?s = Inr ?s" by blast
  with assms show ?thesis
    by (simp add: api_session_modify_def valid_index_def Let_def)
qed

text \<open>
  What a PUT on a valid index does. Always: it changes only the session at that index;
  \<open>game\<close>, \<open>location\<close>, \<open>notes\<close>, \<open>format\<close>, \<open>stake\<close>, \<open>tag\<close> and
  \<open>bullets\<close> change only if the payload supplies them, \<open>date\<close> never. As long as no
  conversion raises: for \<open>buy_in\<close>, \<open>cash_out\<close> and \<open>hours_played\<close>, a key that is
  absent keeps the value, null or the empty string store None, a value on which \<open>float\<close>
  raises \<open>TypeError\<close> or \<open>ValueError\<close> keeps the previous value, a value it accepts is
  stored.
\<close>

lemma put_applies_supplied_fields:
  fixes lib :: "'d pylib" and st :: "'d app" and index :: int and data :: "(string \<times> json) list"
  defines "s \<equiv> sessions (bankroll st) ! nat index"
    and "st' \<equiv> snd (api_session_modify lib PUT index data st)"
  defines "s' \<equiv> sessions (bankroll st') ! nat index"
  assumes valid: "valid_index st index"
  shows "length (sessions (bankroll st')) = length (sessions (bankroll st))
     \<and> starting_amount (bankroll st') = starting_amount (bankroll st)
     \<and> (\<forall>j. j \<noteq> nat index \<longrightarrow> sessions (bankroll st') ! j = sessions (bankroll st) ! j)
     \<and> game s' = (if has_key data ''game'' then dget data ''game'' else game s)
     \<and> location s' = (if has_key data ''location''
                       then py_or (dget data ''location'') (JStr ''Unknown'') else location s)
     \<and> notes' s' = (if has_key data ''notes''
                     then py_or (dget data ''notes'') (JStr '''') else notes' s)
     \<and> format s' = (if has_key data ''format'' then dget data ''format'' else format s)
     \<and> stake s' = (if has_key data ''stake'' then dget data ''stake'' else stake s)
     \<and> tag s' = (if has_key data ''tag'' then dget data ''tag'' else tag s)
     \<and> bullets s' = (if has_key data ''bullets''
                      then (case put_bullets lib data s of Inr n \<Rightarrow> n | Inl e \<Rightarrow> bullets s)
                      else bullets s)
     \<and> date s' = date s
     \<and> (put_raised lib data s = None \<longrightarrow>
          maybe_float lib data ''buy_in'' (buy_in s) = Inr (buy_in s')
        \<and> maybe_float lib data ''cash_out'' (cash_out s) = Inr (cash_out s')
        \<and> maybe_float lib data ''hours_played'' (hours_played s) = Inr (hours_played s'))"
proof -
  have ss: "sessions (bankroll st') = (sessions (bankroll st))[nat index := put_fields lib data s]"
    unfolding st'_def s_def by (rule put_sessions [OF valid])
  have s': "s' = put_fields lib data s"
    unfolding s'_def using valid by (simp add: ss valid_index_nat)
  have len: "length (sessions (bankroll st')) = length (sessions (bankroll st))"
    by (simp add: ss)
  have start: "starting_amount (bankroll st') = starting_amount (bankroll st)"
    unfolding st'_def by (rule put_starting_amount)
  have others: "\<forall>j. j \<noteq> nat index \<longrightarrow> sessions (bankroll st') ! j = sessions (bankroll st) ! j"
    by (simp add: ss)
  have fields:
    "game s' = (if has_key data ''game'' then dget data ''game'' else game s)"
    "location s' = (if has_key data ''location''
                       then py_or (dget data ''location'') (JStr ''Unknown'') else location s)"
    "notes' s' = (if has_key data ''notes''
                     then py_or (dget data ''notes'') (JStr '''') else notes' s)"
    "format s' = (if has_key data ''format'' then dget data ''format'' else format s)"
    "stake s' = (if has_key data ''stake'' then dget data ''stake'' else stake s)"
    "tag s' = (if has_key data ''tag'' then dget data ''tag'' else tag s)"
    "date s' = date s"
    unfolding s' by (rule put_fields_other)+
  have bul: "bullets s' = (if has_key data ''bullets''
                      then (case put_bullets lib data s of Inr n \<Rightarrow> n | Inl e \<Rightarrow> bullets s)
                      else bullets s)"
    unfolding s' by (rule put_fields_bullets)
  have numeric: "put_raised lib data s = None \<longrightarrow>
          maybe_float lib data ''buy_in'' (buy_in s) = Inr (buy_in s')
        \<and> maybe_float lib data ''cash_out'' (cash_out s) = Inr (cash_out s')
        \<and> maybe_float lib data ''hours_played'' (hours_played s) = Inr (hours_played s')"
    unfolding s' put_fields_buy_in put_fields_cash_out put_fields_hours_played put_raised_cases
    by (simp split: sum.splits)
  show ?thesis
    by (intro conjI) (fact len start others fields bul numeric)+
qed

text \<open>
  The payload \<open>{"cash_out": "not_a_number"}\<close> leaves the session and the bankroll as they
  were. If the session can be rendered (its profit and hourly rate do not raise), the
  bankroll is saved and the answer is 200 with the session; if not, the exception of
  \<open>session_to_json\<close> leaves the handler.
\<close>

lemma put_not_a_number:
  fixes lib :: "'d pylib" and st :: "'d app" and index :: int
  defines "r \<equiv> api_session_modify lib PUT index [(''cash_out'', JStr ''not_a_number'')] st"
  assumes valid: "valid_index st index"
    and f: "float_of_str lib ''not_a_number'' = None"
  shows "bankroll (snd r) = bankroll st"
    and "session_to_json lib (sessions (bankroll st) ! nat index) = Inr j \<Longrightarrow>
           r = (Response 200 (Ok_session j),
                \<lparr>bankroll = bankroll st, disk = save_bankroll lib (bankroll st)\<rparr>)"
    and "session_to_json lib (sessions (bankroll st) ! nat index) = Inl e \<Longrightarrow>
           fst r = Response 500 (Unhandled e)"
proof -
  let ?data = "[(''cash_out'', JStr ''not_a_number'')]"
  let ?s = "sessions (bankroll st) ! nat index"
  note same = put_fields_bad_cash_out [OF f, of ?s]
  have upd: "(sessions (bankroll st))[nat index := ?s] = sessions (bankroll st)"
    by (rule list_update_id)
  have "sessions (bankroll (snd r)) = sessions (bankroll st)"
    unfolding r_def by (simp add: put_sessions [OF valid] same upd)
  moreover have "starting_amount (bankroll (snd r)) = starting_amount (bankroll st)"
    unfolding r_def by (rule put_starting_amount)
  ultimately show "bankroll (snd r) = bankroll st" by simp
  show "r = (Response 200 (Ok_session j),
                \<lparr>bankroll = bankroll st, disk = save_bankroll lib (bankroll st)\<rparr>)"
    if "session_to_json lib ?s = Inr j"
  proof -
    from that same(1)
    have "session_to_json lib (put_fields lib ?data ?s) = Inr j" by simp
    from put_response [OF valid same(2) this] show ?thesis
      unfolding r_def by (simp add: same upd)
  qed
  show "fst r = Response 500 (Unhandled e)" if e: "session_to_json lib ?s = Inl e"
  proof (cases "put_recompute ?s")
    case (Inl e')
    with put_recompute_cases [of ?s] have e': "e' = TypeError" by simp
    from Inl have "profit ?s = Inl TypeError"
      by (auto simp: put_recompute_def profit_def set_profit_def e' split: if_splits sum.splits)
    with e have "e = TypeError"
      by (simp add: session_to_json_def)
    with Inl e' valid show ?thesis
      unfolding r_def by (simp add: api_session_modify_def valid_index_def Let_def same)
  next
    case (Inr t)
    with put_recompute_cases [of ?s] have "put_recompute ?s = Inr ?s" by simp
    with e valid show ?thesis
      unfolding r_def by (simp add: api_session_modify_def valid_index_def Let_def same)
  qed
qed

lemma session_a_json: "\<exists>j. session_to_json sample_lib session_a = Inr j"
  by (simp add: session_to_json_def profit_def py_sub_def hourly_rate_def session_a_def)

lemma not_a_number: "float_of_str sample_lib ''not_a_number'' = None"
  by (simp add: sample_lib_def) code_simp

lemma put_not_a_number_seeded:
  "\<exists>j. api_session_modify sample_lib PUT 0 [(''cash_out'', JStr ''not_a_number'')] app_ab =
        (Response 200 (Ok_session j), app_ab)"
proof -
  from session_a_json obtain j where "session_to_json sample_lib session_a = Inr j" ..
  then have "session_to_json sample_lib (sessions (bankroll app_ab) ! nat 0) = Inr j"
    by (simp add: app_ab_def roll_ab_def)
  from put_not_a_number(2) [OF app_ab_valid0 not_a_number this] show ?thesis
    by (auto simp: app_ab_def)
qed

lemma put_cleared_buy_in:
  "api_session_modify sample_lib PUT 0 [(''buy_in'', JNull)] app_ab =
     (Response 500 (Unhandled TypeError),
      \<lparr>bankroll = \<lparr>starting_amount = 0, sessions = [session_a\<lparr>buy_in := JNull\<rparr>, session_b]\<rparr>,
       disk = save_bankroll sample_lib
                \<lparr>starting_amount = 0, sessions = [session_a\<lparr>buy_in := JNull\<rparr>, session_b]\<rparr>\<rparr>)"
proof -
  have k: "put_fields sample_lib [(''buy_in'', JNull)] session_a = session_a\<lparr>buy_in := JNull\<rparr>"
    "put_raised sample_lib [(''buy_in'', JNull)] session_a = None"
    by (simp_all add: put_fields_def put_raised_def put_numbers_result put_strings_def Let_def
        has_key_def maybe_float_def dget_def)
  have r: "put_recompute (session_a\<lparr>buy_in := JNull\<rparr>) = Inr (session_a\<lparr>buy_in := JNull\<rparr>)"
    by (simp add: put_recompute_def)
  have j: "session_to_json sample_lib (session_a\<lparr>buy_in := JNull\<rparr>) = Inl TypeError"
    by (simp add: session_to_json_def profit_def py_sub_def session_a_def)
  show ?thesis
    by (simp add: api_session_modify_def app_ab_def roll_ab_def k r j Let_def)
qed

lemma huge_overflows: "float_overflows huge"
  by (simp add: float_overflows_def huge_def)

text \<open>
  C3. The claim fails on the code in two ways, both against what the handler sets out to
  do (its comment reads \<open>Numeric fields with safe parsing\<close>).
  First: \<open>PUT /api/sessions/0\<close> with \<open>{"buy_in": null}\<close> stores None, as the claim
  says. On the state it leaves, the PUT with \<open>{"cash_out": "not_a_number"}\<close> leaves
  \<open>cash_out\<close> unchanged, saves, and then raises \<open>TypeError\<close>: \<open>session_to_json\<close>
  computes \<open>s.cash_out - s.buy_in\<close>. (So does the first PUT itself.)
  Second: \<open>{"cash_out": 10^400, "hours_played": ""}\<close> on the seeded bankroll. \<open>float\<close>
  raises \<open>OverflowError\<close>, which \<open>maybe_float\<close> does not catch: the request ends in a
  500, and \<open>hours_played\<close>, for which the payload supplies the empty string, is not set
  to None.
\<close>

theorem put_unparsable_number_raises:
  "snd (api_session_modify sample_lib PUT 0 [(''buy_in'', JNull)] app_ab) =
      \<lparr>bankroll = \<lparr>starting_amount = 0, sessions = [session_a\<lparr>buy_in := JNull\<rparr>, session_b]\<rparr>,
       disk = save_bankroll sample_lib
                \<lparr>starting_amount = 0, sessions = [session_a\<lparr>buy_in := JNull\<rparr>, session_b]\<rparr>\<rparr>
   \<and> fst (api_session_modify sample_lib PUT 0 [(''cash_out'', JStr ''not_a_number'')]
        (snd (api_session_modify sample_lib PUT 0 [(''buy_in'', JNull)] app_ab)))
      = Response 500 (Unhandled TypeError)
   \<and> api_session_modify sample_lib PUT 0
        [(''cash_out'', JInt huge), (''hours_played'', JStr '''')] app_ab
      = (Response 500 (Unhandled OverflowError), app_ab)
   \<and> hours_played (sessions (bankroll app_ab) ! 0) = JFloat (5 / 2)"
proof -
  let ?st = "\<lparr>bankroll = \<lparr>starting_amount = 0, sessions = [session_a\<lparr>buy_in := JNull\<rparr>, session_b]\<rparr>,
       disk = save_bankroll sample_lib
                \<lparr>starting_amount = 0, sessions = [session_a\<lparr>buy_in := JNull\<rparr>, session_b]\<rparr>\<rparr>"
  have a: "snd (api_session_modify sample_lib PUT 0 [(''buy_in'', JNull)] app_ab) = ?st"
    by (simp add: put_cleared_buy_in)
  have v: "valid_index ?st 0"
    by (simp add: valid_index_def)
  have "session_to_json sample_lib (sessions (bankroll ?st) ! nat 0) = Inl TypeError"
    by (simp add: session_to_json_def profit_def py_sub_def session_a_def)
  from put_not_a_number(3) [OF v not_a_number this]
  have b: "fst (api_session_modify sample_lib PUT 0 [(''cash_out'', JStr ''not_a_number'')] ?st)
      = Response 500 (Unhandled TypeError)" .
  let ?big = "[(''cash_out'', JInt huge), (''hours_played'', JStr '''')]"
  have m: "maybe_float sample_lib ?big ''buy_in'' (buy_in session_a) = Inr (buy_in session_a)"
    "maybe_float sample_lib ?big ''cash_out'' (cash_out session_a) = Inl OverflowError"
    by (simp_all add: maybe_float_def has_key_def dget_def huge_overflows type_or_value_def)
  have k: "put_fields sample_lib ?big session_a = session_a"
    "put_raised sample_lib ?big session_a = Some OverflowError"
    by (simp_all add: put_fields_def put_raised_def put_numbers_result put_strings_def Let_def m
        has_key_def)
  have c: "api_session_modify sample_lib PUT 0 ?big app_ab
      = (Response 500 (Unhandled OverflowError), app_ab)"
    by (simp add: api_session_modify_def app_ab_def roll_ab_def k Let_def)
  have d: "hours_played (sessions (bankroll app_ab) ! 0) = JFloat (5 / 2)"
    by (simp add: app_ab_def roll_ab_def session_a_def)
  from a b c d show ?thesis by simp
qed

lemma del_at_length: "i < length xs \<Longrightarrow> length (del_at i xs) = length xs - 1"
  by (simp add: del_at_def)

lemma del_at_before: "j < i \<Longrightarrow> i < length xs \<Longrightarrow> del_at i xs ! j = xs ! j"
  by (simp add: del_at_def nth_append)

lemma del_at_after: "i \<le> j \<Longrightarrow> Suc j < length xs \<Longrightarrow> del_at i xs ! j = xs ! Suc j"
  by (simp add: del_at_def nth_append min_def)

text \<open>
  C8. DELETE and PUT with an index below 0 or not below the number of sessions answer 400
  and leave the bankroll and the file as they were. DELETE with a valid index answers 200,
  saves, and removes exactly the session at that position: the sessions before it stay,
  the ones after it move up by one.
\<close>

theorem modify_checks_index:
  fixes lib :: "'d pylib" and st :: "'d app" and index :: int
  defines "xs \<equiv> sessions (bankroll st)"
  shows "(index < 0 \<or> int (length xs) \<le> index \<longrightarrow>
            api_session_modify lib meth index data st =
              (Response 400 (Error_body ''Invalid index''), st))
     \<and> (0 \<le> index \<and> index < int (length xs) \<longrightarrow>
            api_session_modify lib DELETE index data st =
              (Response 200 Ok_body,
               \<lparr>bankroll = (bankroll st)\<lparr>sessions := del_at (nat index) xs\<rparr>,
                disk = save_bankroll lib ((bankroll st)\<lparr>sessions := del_at (nat index) xs\<rparr>)\<rparr>)
          \<and> length (del_at (nat index) xs) = length xs - 1
          \<and> (\<forall>j. j < nat index \<longrightarrow> del_at (nat index) xs ! j = xs ! j)
          \<and> (\<forall>j. nat index \<le> j \<and> Suc j < length xs \<longrightarrow> del_at (nat index) xs ! j = xs ! Suc j))"
proof (intro conjI impI)
  assume "index < 0 \<or> int (length xs) \<le> index"
  then show "api_session_modify lib meth index data st =
              (Response 400 (Error_body ''Invalid index''), st)"
    by (auto simp: api_session_modify_def xs_def)
next
  assume v: "0 \<le> index \<and> index < int (length xs)"
  then have n: "nat index < length xs" by (simp add: nat_less_iff)
  from v show "api_session_modify lib DELETE index data st =
              (Response 200 Ok_body,
               \<lparr>bankroll = (bankroll st)\<lparr>sessions := del_at (nat index) xs\<rparr>,
                disk = save_bankroll lib ((bankroll st)\<lparr>sessions := del_at (nat index) xs\<rparr>)\<rparr>)"
    by (simp add: api_session_modify_def xs_def Let_def)
  from n show "length (del_at (nat index) xs) = length xs - 1"
    by (rule del_at_length)
  from n show "\<forall>j. j < nat index \<longrightarrow> del_at (nat index) xs ! j = xs ! j"
    by (simp add: del_at_before)
  show "\<forall>j. nat index \<le> j \<and> Suc j < length xs \<longrightarrow> del_at (nat index) xs ! j = xs ! Suc j"
    by (simp add: del_at_after)
qed

theorem modify_checks_index_witness:
  "int (length (sessions (bankroll app_ab))) \<le> 5
   \<and> api_session_modify sample_lib DELETE 5 [] app_ab =
       (Response 400 (Error_body ''Invalid index''), app_ab)
   \<and> api_session_modify sample_lib PUT 5 [(''game'', JStr ''PLO'')] app_ab =
       (Response 400 (Error_body ''Invalid index''), app_ab)
   \<and> (0::int) \<le> 0 \<and> 0 < int (length (sessions (bankroll app_ab)))
   \<and> sessions (bankroll (snd (api_session_modify sample_lib DELETE 0 [] app_ab))) = [session_b]"
proof -
  have l: "int (length (sessions (bankroll app_ab))) \<le> 5"
    by (simp add: app_ab_def roll_ab_def)
  have v: "(0::int) \<le> 0 \<and> 0 < int (length (sessions (bankroll app_ab)))"
    by (simp add: app_ab_def roll_ab_def)
  have d: "del_at 0 (sessions (bankroll app_ab)) = [session_b]"
    by (simp add: del_at_def app_ab_def roll_ab_def)
  from modify_checks_index [of 5 app_ab sample_lib DELETE "[]"] l
  have a: "api_session_modify sample_lib DELETE 5 [] app_ab =
       (Response 400 (Error_body ''Invalid index''), app_ab)" by blast
  from modify_checks_index [of 5 app_ab sample_lib PUT "[(''game'', JStr ''PLO'')]"] l
  have b: "api_session_modify sample_lib PUT 5 [(''game'', JStr ''PLO'')] app_ab =
       (Response 400 (Error_body ''Invalid index''), app_ab)" by blast
  from modify_checks_index [of 0 app_ab sample_lib DELETE "[]"] v
  have "api_session_modify sample_lib DELETE 0 [] app_ab =
          (Response 200 Ok_body,
           \<lparr>bankroll = (bankroll app_ab)\<lparr>sessions := del_at (nat 0) (sessions (bankroll app_ab))\<rparr>,
            disk = save_bankroll sample_lib
              ((bankroll app_ab)\<lparr>sessions := del_at (nat 0) (sessions (bankroll app_ab))\<rparr>)\<rparr>)"
    by blast
  then have c: "sessions (bankroll (snd (api_session_modify sample_lib DELETE 0 [] app_ab))) = [session_b]"
    by (simp add: d)
  from l a b v c show ?thesis by blast
qed

section \<open>Bankroll history\<close>

lemma history_loop_ok:
  "map profit ss = map Inr ps \<Longrightarrow>
   history_loop hist cur ss =
     Inr (hist @ map (\<lambda>i. cur + sum_list (take (Suc i) ps)) [0 ..< length ps])"
proof (induction ss arbitrary: hist cur ps)
  case Nil
  then show ?case by simp
next
  case (Cons s ss)
  from Cons.prems obtain p ps' where ps: "ps = p # ps'" and p: "profit s = Inr p"
    and rest: "map profit ss = map Inr ps'"
    by (cases ps) auto
  have "map (\<lambda>i. cur + sum_list (take (Suc i) (p # ps'))) [0 ..< Suc (length ps')] =
        (cur + p) # map (\<lambda>i. cur + p + sum_list (take (Suc i) ps')) [0 ..< length ps']"
    by (simp add: map_upt_Suc add.assoc del: upt_Suc)
  with Cons.IH [OF rest, of "hist @ [cur + p]" "cur + p"] p ps show ?case
    by simp
qed

lemma profits_defined:
  "\<forall>s\<in>set ss. num_of (buy_in s) \<noteq> None \<and> num_of (cash_out s) \<noteq> None \<Longrightarrow>
   \<exists>ps. map profit ss = map Inr ps"
proof (induction ss)
  case Nil
  then show ?case by simp
next
  case (Cons s ss)
  then obtain ps where "map profit ss = map Inr ps" by auto
  moreover from Cons.prems obtain p where "profit s = Inr p"
    by (auto simp: profit_def py_sub_def)
  ultimately have "map profit (s # ss) = map Inr (p # ps)" by simp
  then show ?case by blast
qed

text \<open>
  For a bankroll whose sessions all have numbers in \<open>buy_in\<close> and \<open>cash_out\<close>,
  \<open>bankroll_history\<close> has one entry per session, in the order of the sessions, and
  entry \<open>i\<close> is the starting amount plus the sum of the profits of the sessions 0 to
  \<open>i\<close>.
\<close>

lemma bankroll_history_running_sum:
  assumes "\<forall>s\<in>set (sessions roll). num_of (buy_in s) \<noteq> None \<and> num_of (cash_out s) \<noteq> None"
  shows "\<exists>h ps. bankroll_history roll = Inr h
         \<and> map profit (sessions roll) = map Inr ps
         \<and> length h = length (sessions roll)
         \<and> (\<forall>i<length h. h ! i = starting_amount roll + sum_list (take (Suc i) ps))"
proof -
  from profits_defined [OF assms] obtain ps where ps: "map profit (sessions roll) = map Inr ps" ..
  then have len: "length ps = length (sessions roll)"
    by (metis length_map)
  let ?h = "map (\<lambda>i. starting_amount roll + sum_list (take (Suc i) ps)) [0 ..< length ps]"
  from history_loop_ok [OF ps, of "[]" "starting_amount roll"]
  have "bankroll_history roll = Inr ?h"
    by (simp add: bankroll_history_def)
  moreover have "length ?h = length (sessions roll)" using len by simp
  moreover have "\<forall>i<length ?h. ?h ! i = starting_amount roll + sum_list (take (Suc i) ps)"
    by simp
  ultimately show ?thesis
    using ps by blast
qed

lemma bankroll_history_seeded: "bankroll_history roll_ab = Inr [22, 2]"
  by (simp add: bankroll_history_def roll_ab_def profit_def py_sub_def session_a_def session_b_def)

text \<open>
  C7. The claim fails on the code: \<open>PUT /api/sessions/0\<close> with \<open>{"buy_in": null}\<close>
  stores None in \<open>buy_in\<close>. The bankroll still has its two sessions, and
  \<open>bankroll_history\<close>, which by its docstring returns a list of the bankroll values
  after each session, raises \<open>TypeError\<close> at \<open>current += s.profit\<close> instead of
  returning two entries.
\<close>

theorem bankroll_history_raises:
  "sessions (bankroll (snd (api_session_modify sample_lib PUT 0 [(''buy_in'', JNull)] app_ab)))
     = [session_a\<lparr>buy_in := JNull\<rparr>, session_b]
   \<and> bankroll_history (bankroll (snd (api_session_modify sample_lib PUT 0
       [(''buy_in'', JNull)] app_ab))) = Inl TypeError"
  by (simp add: put_cleared_buy_in bankroll_history_def profit_def py_sub_def session_a_def)

section \<open>Stake inference\<close>

lemma split_from_cur:
  "cur \<noteq> [] \<Longrightarrow>
   split_from cur cs =
     (cur @ takeWhile (\<lambda>c. \<not> is_space c) cs) # split_from [] (dropWhile (\<lambda>c. \<not> is_space c) cs)"
  by (induction cs arbitrary: cur) simp_all

lemma split_from_nil:
  "split_from [] cs =
     (case dropWhile is_space cs of
        [] \<Rightarrow> []
      | c # r \<Rightarrow> takeWhile (\<lambda>c. \<not> is_space c) (c # r)
                 # split_from [] (dropWhile (\<lambda>c. \<not> is_space c) (c # r)))"
proof (induction cs)
  case Nil
  then show ?case by simp
next
  case (Cons c cs)
  show ?case
  proof (cases "is_space c")
    case True
    with Cons show ?thesis by simp
  next
    case False
    then show ?thesis by (simp add: split_from_cur)
  qed
qed

lemma infer_stake_first_token:
  "infer_stake_from_game (JStr g) =
     Inr (let t = takeWhile (\<lambda>c. \<not> is_space c) (dropWhile is_space g)
          in if CHR ''/'' \<in> set t then t else ''unknown'')"
proof -
  note sf = split_from_nil [of g]
  show ?thesis
  proof (cases "dropWhile is_space g")
    case Nil
    have "split_from [] g = []"
      by (subst sf, subst Nil) simp
    with Nil show ?thesis
      by (simp add: infer_stake_from_game_def split_ws_def del: dropWhile_eq_Nil_conv)
  next
    case (Cons c r)
    have "split_from [] g = takeWhile (\<lambda>c. \<not> is_space c) (c # r)
                 # split_from [] (dropWhile (\<lambda>c. \<not> is_space c) (c # r))"
      by (subst sf, subst Cons) simp
    with Cons show ?thesis
      by (simp add: infer_stake_from_game_def split_ws_def Let_def)
  qed
qed

lemma infer_stake_not_str: "(\<forall>g. v \<noteq> JStr g) \<Longrightarrow> infer_stake_from_game v = Inl AttributeError"
  by (cases v) (simp_all add: infer_stake_from_game_def)

text \<open>
  C10, as amended. The stake is inferred at construction, when the stake supplied is None or
  empty (false as a Python value): it is then the first whitespace-delimited token of the
  game string if that token contains a slash, else \<open>unknown\<close>. A stake that is supplied
  and not empty is stored as given. A later PUT never infers: it stores the stake of the
  payload or leaves the stake alone, whatever it does to the game.
\<close>

theorem stake_inferred_at_construction:
  assumes "Session_init lib now a = Inr s"
  shows "(truthy (a_stake a) \<longrightarrow> stake s = a_stake a)
     \<and> (\<not> truthy (a_stake a) \<longrightarrow>
          (\<exists>g. a_game a = JStr g
             \<and> stake s = JStr (let t = takeWhile (\<lambda>c. \<not> is_space c) (dropWhile is_space g)
                               in if CHR ''/'' \<in> set t then t else ''unknown'')))
     \<and> stake (put_fields lib data s) =
          (if has_key data ''stake'' then dget data ''stake'' else stake s)"
proof (intro conjI impI)
  assume "truthy (a_stake a)"
  with assms show "stake s = a_stake a"
    by (auto simp: Session_init_def split: sum.splits)
next
  assume f: "\<not> truthy (a_stake a)"
  with assms obtain t where t: "infer_stake_from_game (a_game a) = Inr t" and s: "stake s = JStr t"
    by (cases "infer_stake_from_game (a_game a)") (auto simp: Session_init_def split: sum.splits)
  from t obtain g where g: "a_game a = JStr g"
    using infer_stake_not_str [of "a_game a"] by auto
  with t s show "\<exists>g. a_game a = JStr g
             \<and> stake s = JStr (let t = takeWhile (\<lambda>c. \<not> is_space c) (dropWhile is_space g)
                               in if CHR ''/'' \<in> set t then t else ''unknown'')"
    by (simp add: infer_stake_first_token)
next
  show "stake (put_fields lib data s) =
          (if has_key data ''stake'' then dget data ''stake'' else stake s)"
    by (rule put_fields_other)
qed

lemma init_nlh:
  "Session_init sample_lib new_year (default_args (JStr ''0.10/0.20 NLH'') (JInt 20) (JInt 42)) =
     Inr (session_a\<lparr>location := JStr ''Unknown'', hours_played := JNull, notes' := JStr '''',
                     tag := JStr ''''\<rparr>)"
  by code_simp

lemma init_omaha:
  "Session_init sample_lib new_year (default_args (JStr ''Omaha'') (JInt 20) (JInt 42)) =
     Inr (session_a\<lparr>game := JStr ''Omaha'', location := JStr ''Unknown'', hours_played := JNull,
                     notes' := JStr '''', stake := JStr ''unknown'', tag := JStr ''''\<rparr>)"
  by code_simp

lemma init_explicit:
  "Session_init sample_lib new_year
     ((default_args (JStr ''Omaha'') (JInt 20) (JInt 42))\<lparr>a_stake := JStr ''1/2''\<rparr>) =
     Inr (session_a\<lparr>game := JStr ''Omaha'', location := JStr ''Unknown'', hours_played := JNull,
                     notes' := JStr '''', stake := JStr ''1/2'', tag := JStr ''''\<rparr>)"
  by code_simp

theorem stake_inferred_at_construction_witness:
  "(\<exists>s. Session_init sample_lib new_year
            (default_args (JStr ''0.10/0.20 NLH'') (JInt 20) (JInt 42)) = Inr s
        \<and> stake s = JStr ''0.10/0.20'')
   \<and> (\<exists>s. Session_init sample_lib new_year
            (default_args (JStr ''Omaha'') (JInt 20) (JInt 42)) = Inr s
        \<and> stake s = JStr ''unknown'')
   \<and> (\<exists>s. Session_init sample_lib new_year
            ((default_args (JStr ''Omaha'') (JInt 20) (JInt 42))\<lparr>a_stake := JStr ''1/2''\<rparr>) = Inr s
        \<and> stake s = JStr ''1/2'')"
proof -
  have t1: "(let t = takeWhile (\<lambda>c. \<not> is_space c) (dropWhile is_space ''0.10/0.20 NLH'')
             in if CHR ''/'' \<in> set t then t else ''unknown'') = ''0.10/0.20''"
    by code_simp
  have t2: "(let t = takeWhile (\<lambda>c. \<not> is_space c) (dropWhile is_space ''Omaha'')
             in if CHR ''/'' \<in> set t then t else ''unknown'') = ''unknown''"
    by code_simp
  from stake_inferred_at_construction [OF init_nlh] t1
  have "stake (session_a\<lparr>location := JStr ''Unknown'', hours_played := JNull, notes' := JStr '''',
                     tag := JStr ''''\<rparr>) = JStr ''0.10/0.20''"
    by (simp add: default_args_def)
  with init_nlh have a: "\<exists>s. Session_init sample_lib new_year
            (default_args (JStr ''0.10/0.20 NLH'') (JInt 20) (JInt 42)) = Inr s
        \<and> stake s = JStr ''0.10/0.20''"
    by blast
  from stake_inferred_at_construction [OF init_omaha] t2
  have "stake (session_a\<lparr>game := JStr ''Omaha'', location := JStr ''Unknown'', hours_played := JNull,
                     notes' := JStr '''', stake := JStr ''unknown'', tag := JStr ''''\<rparr>)
          = JStr ''unknown''"
    by (simp add: default_args_def)
  with init_omaha have b: "\<exists>s. Session_init sample_lib new_year
            (default_args (JStr ''Omaha'') (JInt 20) (JInt 42)) = Inr s
        \<and> stake s = JStr ''unknown''"
    by blast
  from stake_inferred_at_construction [OF init_explicit]
  have "stake (session_a\<lparr>game := JStr ''Omaha'', location := JStr ''Unknown'', hours_played := JNull,
                     notes' := JStr '''', stake := JStr ''1/2'', tag := JStr ''''\<rparr>)
          = JStr ''1/2''"
    by (simp add: default_args_def)
  with init_explicit have c: "\<exists>s. Session_init sample_lib new_year
            ((default_args (JStr ''Omaha'') (JInt 20) (JInt 42))\<lparr>a_stake := JStr ''1/2''\<rparr>) = Inr s
        \<and> stake s = JStr ''1/2''"
    by blast
  from a b c show ?thesis by blast
qed

text \<open>
  C10 fails as stated: a stake supplied explicitly as the empty string is not stored as
  given; \<open>stake or self._infer_stake_from_game(game)\<close> infers \<open>0.10/0.20\<close> from the game.
\<close>

theorem explicit_empty_stake_counterexample:
  "a_stake ((default_args (JStr ''0.10/0.20 NLH'') (JInt 20) (JInt 42))\<lparr>a_stake := JStr ''''\<rparr>
            :: datetime session_args) = JStr ''''
   \<and> map_sum id stake (Session_init sample_lib new_year
        ((default_args (JStr ''0.10/0.20 NLH'') (JInt 20) (JInt 42))\<lparr>a_stake := JStr ''''\<rparr>))
     = Inr (JStr ''0.10/0.20'')"
  by code_simp

section \<open>Reachable sessions\<close>

lemma Session_init_money:
  "Session_init lib now a = Inr s \<Longrightarrow> \<exists>b c. buy_in s = JFloat b \<and> cash_out s = JFloat c"
  by (auto simp: Session_init_def split: sum.splits)

lemma post_sessions:
  "sessions (bankroll (snd (api_sessions_post lib now data st))) = sessions (bankroll st)
   \<or> (\<exists>s a. Session_init lib now a = Inr s
         \<and> sessions (bankroll (snd (api_sessions_post lib now data st))) = sessions (bankroll st) @ [s])"
  by (auto simp: api_sessions_post_def add_session_def Let_def split: sum.splits)

lemma delete_sessions:
  "set (sessions (bankroll (snd (api_session_modify lib DELETE index data st))))
     \<subseteq> set (sessions (bankroll st))"
  by (auto simp: api_session_modify_def del_at_def Let_def dest: in_set_takeD in_set_dropD)

lemma put_sessions_any:
  "sessions (bankroll (snd (api_session_modify lib PUT index data st))) =
     (if valid_index st index
      then (sessions (bankroll st))[nat index := put_fields lib data (sessions (bankroll st) ! nat index)]
      else sessions (bankroll st))"
proof (cases "valid_index st index")
  case True
  then show ?thesis by (simp add: put_sessions)
next
  case False
  then show ?thesis by (auto simp: api_session_modify_def valid_index_def)
qed

lemma maybe_float_shape:
  "money_shape clr v \<Longrightarrow> maybe_float lib data k v = Inr w \<Longrightarrow>
   money_shape (clr \<or> clears data k) w"
  by (auto simp: money_shape_def maybe_float_def clears_def Let_def split: sum.splits if_splits)

lemma money_shape_mono: "money_shape clr v \<Longrightarrow> money_shape (clr \<or> c) v"
  by (auto simp: money_shape_def)

lemma put_fields_shape:
  assumes "money_shape clr (buy_in s)" and "money_shape clr (cash_out s)"
  shows "money_shape (clr \<or> clears data ''buy_in'' \<or> clears data ''cash_out'')
           (buy_in (put_fields lib data s))"
    and "money_shape (clr \<or> clears data ''buy_in'' \<or> clears data ''cash_out'')
           (cash_out (put_fields lib data s))"
proof -
  let ?clr = "clr \<or> clears data ''buy_in'' \<or> clears data ''cash_out''"
  have old: "money_shape ?clr (buy_in s)" "money_shape ?clr (cash_out s)"
    using assms by (auto simp: money_shape_def)
  show "money_shape ?clr (buy_in (put_fields lib data s))"
  proof (cases "maybe_float lib data ''buy_in'' (buy_in s)")
    case (Inl e)
    with old show ?thesis by (simp add: put_fields_buy_in)
  next
    case (Inr b)
    from maybe_float_shape [OF assms(1) Inr] have "money_shape ?clr b"
      by (auto simp: money_shape_def)
    with Inr show ?thesis by (simp add: put_fields_buy_in)
  qed
  show "money_shape ?clr (cash_out (put_fields lib data s))"
  proof (cases "maybe_float lib data ''cash_out'' (cash_out s)")
    case (Inl e)
    with old show ?thesis by (simp add: put_fields_cash_out split: sum.splits)
  next
    case (Inr c)
    from maybe_float_shape [OF assms(2) Inr] have "money_shape ?clr c"
      by (auto simp: money_shape_def)
    with Inr old show ?thesis by (simp add: put_fields_cash_out split: sum.splits)
  qed
qed

text \<open>
  C4, as amended. In every state reached by constructing sessions and by POST, PUT and
  DELETE requests, \<open>buy_in\<close> and \<open>cash_out\<close> of every session are floats, as long as no
  PUT has supplied null or the empty string for one of them; from then on each is a float
  or None. Nothing is said about the sign.
\<close>

theorem money_fields_invariant:
  assumes "reachable lib clr st" and "s \<in> set (sessions (bankroll st))"
  shows "((\<exists>r. buy_in s = JFloat r) \<or> (clr \<and> buy_in s = JNull))
       \<and> ((\<exists>r. cash_out s = JFloat r) \<or> (clr \<and> cash_out s = JNull))"
proof -
  have "\<forall>s\<in>set (sessions (bankroll st)). money_shape clr (buy_in s) \<and> money_shape clr (cash_out s)"
    using assms(1)
  proof (induction rule: reachable.induct)
    case (start a d)
    then show ?case by simp
  next
    case (construct clr st now a s)
    from Session_init_money [OF construct.hyps(2)]
    have "money_shape clr (buy_in s) \<and> money_shape clr (cash_out s)"
      by (auto simp: money_shape_def)
    with construct.IH show ?case by (auto simp: add_session_def)
  next
    case (post clr st now data)
    from post_sessions [of lib now data st] show ?case
    proof
      assume "sessions (bankroll (snd (api_sessions_post lib now data st))) = sessions (bankroll st)"
      with post.IH show ?thesis by simp
    next
      assume "\<exists>s a. Session_init lib now a = Inr s
         \<and> sessions (bankroll (snd (api_sessions_post lib now data st))) = sessions (bankroll st) @ [s]"
      then obtain s a where i: "Session_init lib now a = Inr s"
        and ss: "sessions (bankroll (snd (api_sessions_post lib now data st))) = sessions (bankroll st) @ [s]"
        by blast
      from Session_init_money [OF i]
      have "money_shape clr (buy_in s) \<and> money_shape clr (cash_out s)"
        by (auto simp: money_shape_def)
      with post.IH ss show ?thesis by auto
    qed
  next
    case (delete clr st index data)
    with delete_sessions [of lib index data st] show ?case by blast
  next
    case (put clr st data index)
    let ?clr = "clr \<or> clears data ''buy_in'' \<or> clears data ''cash_out''"
    have old: "\<forall>s\<in>set (sessions (bankroll st)). money_shape ?clr (buy_in s) \<and> money_shape ?clr (cash_out s)"
      using put.IH money_shape_mono by blast
    show ?case
    proof (cases "valid_index st index")
      case False
      with old show ?thesis by (simp add: put_sessions_any)
    next
      case True
      then have n: "nat index < length (sessions (bankroll st))" by (rule valid_index_nat)
      let ?s = "sessions (bankroll st) ! nat index"
      from n put.IH have "money_shape clr (buy_in ?s)" "money_shape clr (cash_out ?s)"
        by simp_all
      then have new: "money_shape ?clr (buy_in (put_fields lib data ?s))
                    \<and> money_shape ?clr (cash_out (put_fields lib data ?s))"
        by (simp add: put_fields_shape)
      show ?thesis
      proof
        fix x assume "x \<in> set (sessions (bankroll (snd (api_session_modify lib PUT index data st))))"
        then have "x \<in> set ((sessions (bankroll st))[nat index := put_fields lib data ?s])"
          using True by (simp add: put_sessions_any)
        then have "x = put_fields lib data ?s \<or> x \<in> set (sessions (bankroll st))"
          by (auto dest: set_update_subset_insert [THEN subsetD])
        with new old show "money_shape ?clr (buy_in x) \<and> money_shape ?clr (cash_out x)"
          by blast
      qed
    qed
  qed
  with assms(2) show ?thesis by (simp add: money_shape_def)
qed

lemma init_session_a:
  "Session_init sample_lib new_year
     \<lparr>a_game = JStr ''0.10/0.20 NLH'', a_buy_in = JInt 20, a_cash_out = JInt 42,
      a_location = JStr ''Online'', a_hours_played = JFloat (5 / 2), a_notes = JStr ''Ran hot'',
      a_date = Some new_year, a_stake = JNull, a_format = JStr ''cash'', a_bullets = JInt 1,
      a_tag = JStr ''A-game''\<rparr> = Inr session_a"
  by code_simp

lemma init_session_b:
  "Session_init sample_lib new_year
     \<lparr>a_game = JStr ''0.10/0.20 NLH'', a_buy_in = JInt 20, a_cash_out = JInt 0,
      a_location = JStr ''IRL'', a_hours_played = JFloat (6 / 5), a_notes = JStr ''Coolered'',
      a_date = Some new_year, a_stake = JNull, a_format = JStr ''cash'', a_bullets = JInt 2,
      a_tag = JStr ''tilt''\<rparr> = Inr session_b"
  by code_simp

lemma reachable_app_ab: "reachable sample_lib False app_ab"
proof -
  let ?st0 = "\<lparr>bankroll = \<lparr>starting_amount = 0, sessions = []\<rparr>, disk = disk app_ab\<rparr> :: datetime app"
  have "reachable sample_lib False ?st0" by (rule reachable.start)
  from reachable.construct [OF this init_session_a]
  have "reachable sample_lib False
          \<lparr>bankroll = \<lparr>starting_amount = 0, sessions = [session_a]\<rparr>, disk = disk app_ab\<rparr>"
    by (simp add: add_session_def)
  from reachable.construct [OF this init_session_b]
  show ?thesis
    by (simp add: add_session_def app_ab_def roll_ab_def)
qed

theorem money_fields_invariant_witness:
  "reachable sample_lib False app_ab \<and> session_b \<in> set (sessions (bankroll app_ab))
   \<and> buy_in session_b = JFloat 20 \<and> cash_out session_b = JFloat 0"
proof -
  have m: "session_b \<in> set (sessions (bankroll app_ab))"
    by (simp add: app_ab_def roll_ab_def)
  from money_fields_invariant [OF reachable_app_ab m]
  have "(\<exists>r. buy_in session_b = JFloat r) \<and> (\<exists>r. cash_out session_b = JFloat r)"
    by simp
  then have "buy_in session_b = JFloat 20 \<and> cash_out session_b = JFloat 0"
    by (simp add: session_b_def)
  with reachable_app_ab m show ?thesis by simp
qed

text \<open>
  C4 fails as stated: \<open>PUT /api/sessions/0\<close> with \<open>{"buy_in": null}\<close> leads to a
  reachable state whose first session has \<open>buy_in\<close> None, which is no number.
\<close>

theorem money_fields_counterexample:
  "reachable sample_lib True
     (snd (api_session_modify sample_lib PUT 0 [(''buy_in'', JNull)] app_ab))
   \<and> buy_in (sessions (bankroll
        (snd (api_session_modify sample_lib PUT 0 [(''buy_in'', JNull)] app_ab))) ! 0) = JNull
   \<and> num_of JNull = None"
proof -
  have "clears [(''buy_in'', JNull)] ''buy_in''"
    by (simp add: clears_def has_key_def dget_def)
  with reachable.put [OF reachable_app_ab, of "[(''buy_in'', JNull)]" 0]
  have "reachable sample_lib True
     (snd (api_session_modify sample_lib PUT 0 [(''buy_in'', JNull)] app_ab))"
    by simp
  moreover have "buy_in (sessions (bankroll
        (snd (api_session_modify sample_lib PUT 0 [(''buy_in'', JNull)] app_ab))) ! 0) = JNull"
    by (simp add: put_cleared_buy_in)
  ultimately show ?thesis by simp
qed


section \<open>Creating a session\<close>

lemma required_float_cases:
  "required_float lib data k =
     (case map_of data k of None \<Rightarrow> Inl KeyError | Some v \<Rightarrow> py_float lib v)"
  by (simp add: required_float_def dindex_def split: option.splits)

lemma required_float_400:
  assumes "\<forall>v. map_of data k = Some v \<longrightarrow>
             py_float lib v \<noteq> Inl TypeError \<and> py_float lib v \<noteq> Inl OverflowError"
  shows "(\<exists>e. required_float lib data k = Inl e) =
           (map_of data k = None \<or> (\<exists>str. map_of data k = Some (JStr str) \<and> float_of_str lib str = None))"
    and "required_float lib data k = Inl e \<Longrightarrow> e = KeyError \<or> e = ValueError"
proof -
  show "(\<exists>e. required_float lib data k = Inl e) =
           (map_of data k = None \<or> (\<exists>str. map_of data k = Some (JStr str) \<and> float_of_str lib str = None))"
  proof (cases "map_of data k")
    case None
    then show ?thesis by (simp add: required_float_cases)
  next
    case (Some v)
    with assms have nt: "py_float lib v \<noteq> Inl TypeError" "py_float lib v \<noteq> Inl OverflowError"
      by simp_all
    show ?thesis
    proof (cases "py_float lib v")
      case (Inl e)
      with py_float_error [OF Inl] nt Some show ?thesis
        by (auto simp: required_float_cases)
    next
      case (Inr r)
      with Some show ?thesis by (auto simp: required_float_cases split: option.splits)
    qed
  qed
  show "required_float lib data k = Inl e \<Longrightarrow> e = KeyError \<or> e = ValueError"
    using assms py_float_error [of lib _ e]
    by (auto simp: required_float_cases split: option.splits)
qed

lemma post_init_cases:
  "Session_init lib now (post_args data b c h n) =
     (if truthy (dget data ''stake'') \<or> (\<exists>g. dget data ''game'' = JStr g)
      then Inr \<lparr>game = dget data ''game'', buy_in = JFloat b, cash_out = JFloat c,
                location = py_or (dget data ''location'') (JStr ''Unknown''),
                hours_played = h,
                notes' = py_or (dget data ''notes'') (JStr ''''),
                date = now,
                stake = (if truthy (dget data ''stake'') then dget data ''stake''
                         else JStr (let t = takeWhile (\<lambda>c. \<not> is_space c)
                                              (dropWhile is_space (case dget data ''game'' of JStr g \<Rightarrow> g))
                                    in if CHR ''/'' \<in> set t then t else ''unknown'')),
                format = dget data ''format'', bullets = n,
                tag = py_or (dget data ''tag'') (JStr '''')\<rparr>
      else Inl AttributeError)"
proof (cases "truthy (dget data ''stake'')")
  case True
  then show ?thesis by (simp add: Session_init_def post_args_def)
next
  case False
  show ?thesis
  proof (cases "\<exists>g. dget data ''game'' = JStr g")
    case True
    then obtain g where "dget data ''game'' = JStr g" ..
    with False show ?thesis
      by (simp add: Session_init_def post_args_def infer_stake_first_token)
  next
    case nostr: False
    then have "infer_stake_from_game (dget data ''game'') = Inl AttributeError"
      by (simp add: infer_stake_not_str)
    with False nostr show ?thesis
      by (simp add: Session_init_def post_args_def)
  qed
qed

lemma post_hours_shape: "post_hours lib data = Inr h \<Longrightarrow> h = JNull \<or> (\<exists>r. h = JFloat r)"
  by (auto simp: post_hours_def Let_def split: sum.splits if_splits)

text \<open>
  The conversion of \<open>hours_played\<close> raises exactly on an \<open>int\<close> beyond the range of a
  float; the conversion of \<open>bullets\<close> does not raise in the model (\<open>post_bullets_ok\<close>).
\<close>

lemma post_hours_raises:
  "(post_hours lib data = Inl e) = (e = OverflowError \<and> py_float lib (dget data ''hours_played'') = Inl e)"
proof (cases "py_float lib (dget data ''hours_played'')")
  case (Inl e')
  from py_float_error [OF Inl] Inl show ?thesis
    by (auto simp: post_hours_def Let_def type_or_value_def)
next
  case (Inr r)
  then show ?thesis
    by (auto simp: post_hours_def Let_def)
qed

lemma post_session_renders:
  assumes "Session_init lib now (post_args data b c h n) = Inr s"
    and "post_hours lib data = Inr h"
  shows "\<exists>j. session_to_json lib s = Inr j"
proof -
  from assms(1) have f: "buy_in s = JFloat b" "cash_out s = JFloat c" "hours_played s = h"
    by (auto simp: post_init_cases split: if_splits)
  from post_hours_shape [OF assms(2)] show ?thesis
    by (auto simp: session_to_json_def profit_def py_sub_def hourly_rate_def f)
qed

lemma post_invalid:
  assumes "required_float lib data ''buy_in'' = Inl e
           \<or> (\<exists>b. required_float lib data ''buy_in'' = Inr b \<and> required_float lib data ''cash_out'' = Inl e)"
    and "e = KeyError \<or> e = ValueError"
  shows "api_sessions_post lib now data st =
           (Response 400 (Error_body ''Invalid buy_in/cash_out''), st)"
  using assms by (auto simp: api_sessions_post_def invalid_or_unhandled_def)

lemma post_not_created:
  assumes "required_float lib data ''buy_in'' = Inr b"
    and "required_float lib data ''cash_out'' = Inr c"
    and "post_hours lib data = Inr h"
    and "post_bullets lib data = Inr n"
    and "Session_init lib now (post_args data b c h n) = Inl e"
  shows "api_sessions_post lib now data st =
           (Response 400 (Error_body ''Could not create session''), st)"
  using assms by (simp add: api_sessions_post_def)

lemma post_created:
  assumes "required_float lib data ''buy_in'' = Inr b"
    and "required_float lib data ''cash_out'' = Inr c"
    and "post_hours lib data = Inr h"
    and "post_bullets lib data = Inr n"
    and "Session_init lib now (post_args data b c h n) = Inr s"
    and "session_to_json lib s = Inr j"
  shows "api_sessions_post lib now data st =
           (Response 201 (Ok_session j),
            \<lparr>bankroll = add_session (bankroll st) s,
             disk = save_bankroll lib (add_session (bankroll st) s)\<rparr>)"
  using assms by (simp add: api_sessions_post_def Let_def)

text \<open>
  C5, as amended. Take a POST in which \<open>float\<close> raises neither \<open>TypeError\<close> nor
  \<open>OverflowError\<close> on \<open>buy_in\<close> and \<open>cash_out\<close>, where they are supplied (they are
  numbers within the range of a float, booleans or strings), and no \<open>OverflowError\<close> on
  \<open>hours_played\<close>. The answer is 400 exactly when \<open>buy_in\<close> or \<open>cash_out\<close> is
  missing or is a string that is no number, or when the session cannot be constructed,
  which happens when no non-empty stake is supplied and \<open>game\<close> is not a string. A 400
  carries an error message and changes nothing. Otherwise the session is constructed,
  appended to the bankroll, the bankroll is saved, and the answer is 201 with the session.
  The requests left aside end in a 500 (\<open>post_null_buy_in_unhandled\<close>,
  \<open>post_huge_buy_in_unhandled\<close>, \<open>post_huge_hours_unhandled\<close>).
\<close>

theorem post_create_contract:
  fixes lib :: "'d pylib" and st :: "'d app" and now :: 'd and data :: "(string \<times> json) list"
  defines "r \<equiv> api_sessions_post lib now data st"
  assumes types: "\<forall>k v. (k = ''buy_in'' \<or> k = ''cash_out'') \<and> map_of data k = Some v
                    \<longrightarrow> py_float lib v \<noteq> Inl TypeError \<and> py_float lib v \<noteq> Inl OverflowError"
    and hours: "py_float lib (dget data ''hours_played'') \<noteq> Inl OverflowError"
  shows "(status (fst r) = 400) =
           (map_of data ''buy_in'' = None
            \<or> (\<exists>str. map_of data ''buy_in'' = Some (JStr str) \<and> float_of_str lib str = None)
            \<or> map_of data ''cash_out'' = None
            \<or> (\<exists>str. map_of data ''cash_out'' = Some (JStr str) \<and> float_of_str lib str = None)
            \<or> (\<not> truthy (dget data ''stake'') \<and> (\<forall>g. dget data ''game'' \<noteq> JStr g)))
     \<and> (status (fst r) = 400 \<longrightarrow> snd r = st \<and> (\<exists>msg. body (fst r) = Error_body msg))
     \<and> (status (fst r) \<noteq> 400 \<longrightarrow>
          (\<exists>b c h n s j. required_float lib data ''buy_in'' = Inr b
             \<and> required_float lib data ''cash_out'' = Inr c
             \<and> post_hours lib data = Inr h
             \<and> post_bullets lib data = Inr n
             \<and> Session_init lib now (post_args data b c h n) = Inr s
             \<and> session_to_json lib s = Inr j
             \<and> r = (Response 201 (Ok_session j),
                    \<lparr>bankroll = add_session (bankroll st) s,
                     disk = save_bankroll lib (add_session (bankroll st) s)\<rparr>)))"
proof -
  let ?bad = "\<lambda>k. map_of data k = None
            \<or> (\<exists>str. map_of data k = Some (JStr str) \<and> float_of_str lib str = None)"
  have tb: "\<forall>v. map_of data ''buy_in'' = Some v \<longrightarrow>
              py_float lib v \<noteq> Inl TypeError \<and> py_float lib v \<noteq> Inl OverflowError"
    and tc: "\<forall>v. map_of data ''cash_out'' = Some v \<longrightarrow>
              py_float lib v \<noteq> Inl TypeError \<and> py_float lib v \<noteq> Inl OverflowError"
    using types by blast+
  note bi = required_float_400 [OF tb]
  note co = required_float_400 [OF tc]
  from hours post_hours_raises [of lib data] obtain h where h: "post_hours lib data = Inr h"
    by (cases "post_hours lib data") auto
  from post_bullets_ok [of lib data] obtain n where n: "post_bullets lib data = Inr n" ..
  show ?thesis
  proof (cases "required_float lib data ''buy_in''")
    case (Inl e)
    with bi(2) have e: "e = KeyError \<or> e = ValueError" by simp
    from Inl bi(1) have bad: "?bad ''buy_in''" by blast
    from post_invalid [of lib data e now st] Inl e
    have "r = (Response 400 (Error_body ''Invalid buy_in/cash_out''), st)"
      by (simp add: r_def)
    then have "status (fst r) = 400" "snd r = st" "\<exists>msg. body (fst r) = Error_body msg"
      by simp_all
    with bad show ?thesis by blast
  next
    case b: (Inr b)
    with bi(1) have okb: "\<not> ?bad ''buy_in''" by simp
    show ?thesis
    proof (cases "required_float lib data ''cash_out''")
      case (Inl e)
      with co(2) have e: "e = KeyError \<or> e = ValueError" by simp
      from Inl co(1) have bad: "?bad ''cash_out''" by blast
      from post_invalid [of lib data e now st] b Inl e
      have "r = (Response 400 (Error_body ''Invalid buy_in/cash_out''), st)"
        by (simp add: r_def)
      then have "status (fst r) = 400" "snd r = st" "\<exists>msg. body (fst r) = Error_body msg"
        by simp_all
      with bad show ?thesis by blast
    next
      case c: (Inr c)
      with co(1) have okc: "\<not> ?bad ''cash_out''" by simp
      show ?thesis
      proof (cases "Session_init lib now (post_args data b c h n)")
        case (Inl e)
        then have ng: "\<not> truthy (dget data ''stake'') \<and> (\<forall>g. dget data ''game'' \<noteq> JStr g)"
          by (simp add: post_init_cases split: if_splits)
        from post_not_created [OF b c h n Inl]
        have "r = (Response 400 (Error_body ''Could not create session''), st)"
          by (simp add: r_def)
        then have "status (fst r) = 400" "snd r = st" "\<exists>msg. body (fst r) = Error_body msg"
          by simp_all
        with ng show ?thesis by blast
      next
        case s: (Inr s)
        then have g: "\<not> (\<not> truthy (dget data ''stake'') \<and> (\<forall>g. dget data ''game'' \<noteq> JStr g))"
          by (simp add: post_init_cases split: if_splits)
        from post_session_renders [OF s h] obtain j where j: "session_to_json lib s = Inr j" ..
        from post_created [OF b c h n s j]
        have r: "r = (Response 201 (Ok_session j),
                    \<lparr>bankroll = add_session (bankroll st) s,
                     disk = save_bankroll lib (add_session (bankroll st) s)\<rparr>)"
          by (simp add: r_def)
        then have st: "status (fst r) \<noteq> 400" by simp
        from b c h n s j r have "\<exists>b c h n s j. required_float lib data ''buy_in'' = Inr b
             \<and> required_float lib data ''cash_out'' = Inr c
             \<and> post_hours lib data = Inr h
             \<and> post_bullets lib data = Inr n
             \<and> Session_init lib now (post_args data b c h n) = Inr s
             \<and> session_to_json lib s = Inr j
             \<and> r = (Response 201 (Ok_session j),
                    \<lparr>bankroll = add_session (bankroll st) s,
                     disk = save_bankroll lib (add_session (bankroll st) s)\<rparr>)"
          by blast
        with st okb okc g show ?thesis by blast
      qed
    qed
  qed
qed

lemma post_body_types:
  "\<forall>k v. (k = ''buy_in'' \<or> k = ''cash_out'') \<and> map_of post_body k = Some v
          \<longrightarrow> py_float sample_lib v \<noteq> Inl TypeError \<and> py_float sample_lib v \<noteq> Inl OverflowError"
proof -
  have "float_of_str sample_lib ''50'' = Some 50"
    by (simp add: sample_lib_def) code_simp
  then show ?thesis by (auto simp: post_body_def float_fits)
qed

lemma post_body_hours: "py_float sample_lib (dget post_body ''hours_played'') \<noteq> Inl OverflowError"
  by (simp add: post_body_def dget_def)

theorem post_create_contract_witness:
  "(\<exists>v. map_of post_body ''buy_in'' = Some v \<and> py_float sample_lib v = Inr 50)
   \<and> (\<exists>v. map_of post_body ''cash_out'' = Some v \<and> py_float sample_lib v = Inr 120)
   \<and> py_float sample_lib (dget post_body ''hours_played'') = Inr (7 / 2)
   \<and> status (fst (api_sessions_post sample_lib new_year post_body app_ab)) = 201
   \<and> length (sessions (bankroll (snd (api_sessions_post sample_lib new_year post_body app_ab)))) = 3
   \<and> disk (snd (api_sessions_post sample_lib new_year post_body app_ab)) =
       save_bankroll sample_lib (bankroll (snd (api_sessions_post sample_lib new_year post_body app_ab)))"
proof -
  let ?r = "api_sessions_post sample_lib new_year post_body app_ab"
  have f: "float_of_str sample_lib ''50'' = Some 50"
    by (simp add: sample_lib_def) code_simp
  have t: "(\<exists>v. map_of post_body ''buy_in'' = Some v \<and> py_float sample_lib v = Inr 50)
   \<and> (\<exists>v. map_of post_body ''cash_out'' = Some v \<and> py_float sample_lib v = Inr 120)
   \<and> py_float sample_lib (dget post_body ''hours_played'') = Inr (7 / 2)"
    by (simp add: post_body_def f dget_def float_fits)
  note c = post_create_contract [OF post_body_types post_body_hours, of new_year app_ab]
  have "\<not> (map_of post_body ''buy_in'' = None
            \<or> (\<exists>str. map_of post_body ''buy_in'' = Some (JStr str) \<and> float_of_str sample_lib str = None)
            \<or> map_of post_body ''cash_out'' = None
            \<or> (\<exists>str. map_of post_body ''cash_out'' = Some (JStr str) \<and> float_of_str sample_lib str = None)
            \<or> (\<not> truthy (dget post_body ''stake'') \<and> (\<forall>g. dget post_body ''game'' \<noteq> JStr g)))"
    by (simp add: post_body_def f dget_def)
  with c have "status (fst ?r) \<noteq> 400" by blast
  with c obtain s j where "?r = (Response 201 (Ok_session j),
                    \<lparr>bankroll = add_session (bankroll app_ab) s,
                     disk = save_bankroll sample_lib (add_session (bankroll app_ab) s)\<rparr>)"
    by blast
  then have "status (fst ?r) = 201"
    "length (sessions (bankroll (snd ?r))) = 3"
    "disk (snd ?r) = save_bankroll sample_lib (bankroll (snd ?r))"
    by (simp_all add: add_session_def app_ab_def roll_ab_def)
  with t show ?thesis by blast
qed

text \<open>
  C5 fails as stated: with \<open>buy_in\<close> 10 and \<open>cash_out\<close> 20, both present and numbers,
  but no \<open>game\<close> and no \<open>stake\<close>, the constructor raises and the answer is 400; no
  session is created.
\<close>

theorem post_without_game_counterexample:
  "map_of [(''buy_in'', JInt 10), (''cash_out'', JInt 20)] ''buy_in'' = Some (JInt 10)
   \<and> map_of [(''buy_in'', JInt 10), (''cash_out'', JInt 20)] ''cash_out'' = Some (JInt 20)
   \<and> py_float sample_lib (JInt 10) = Inr 10 \<and> py_float sample_lib (JInt 20) = Inr 20
   \<and> api_sessions_post sample_lib new_year [(''buy_in'', JInt 10), (''cash_out'', JInt 20)] app_ab =
       (Response 400 (Error_body ''Could not create session''), app_ab)"
proof -
  let ?data = "[(''buy_in'', JInt 10), (''cash_out'', JInt 20)]"
  have h: "post_hours sample_lib ?data = Inr JNull" and n: "post_bullets sample_lib ?data = Inr 1"
    by (simp_all add: post_hours_def post_bullets_def dget_def)
  have "Session_init sample_lib new_year (post_args ?data 10 20 JNull 1) = Inl AttributeError"
    by (simp add: post_init_cases dget_def)
  with h n show ?thesis
    by (simp add: api_sessions_post_def required_float_def dindex_def float_fits)
qed

text \<open>
  Three remarks on POST. No operation looks at the sign of an amount: a buy-in of -5 is
  stored, although \<open>main.py\<close> expects \<open>Session\<close> to reject negative amounts. Null for
  \<open>buy_in\<close> makes \<open>float\<close> raise \<open>TypeError\<close>, and an \<open>int\<close> beyond the range of a
  float makes it raise \<open>OverflowError\<close>; the \<open>except\<close> clause names neither, and the
  request ends in a 500.
\<close>

lemma negative_buy_in_accepted:
  "\<exists>j. api_sessions_post sample_lib new_year
          [(''game'', JStr ''NLH''), (''buy_in'', JInt (- 5)), (''cash_out'', JInt 0)] app_ab =
        (Response 201 (Ok_session j),
         \<lparr>bankroll = add_session roll_ab
            \<lparr>game = JStr ''NLH'', buy_in = JFloat (- 5), cash_out = JFloat 0,
             location = JStr ''Unknown'', hours_played = JNull, notes' = JStr '''',
             date = new_year, stake = JStr ''unknown'', format = JNull, bullets = 1,
             tag = JStr ''''\<rparr>,
          disk = save_bankroll sample_lib (add_session roll_ab
            \<lparr>game = JStr ''NLH'', buy_in = JFloat (- 5), cash_out = JFloat 0,
             location = JStr ''Unknown'', hours_played = JNull, notes' = JStr '''',
             date = new_year, stake = JStr ''unknown'', format = JNull, bullets = 1,
             tag = JStr ''''\<rparr>)\<rparr>)"
proof -
  let ?data = "[(''game'', JStr ''NLH''), (''buy_in'', JInt (- 5)), (''cash_out'', JInt 0)]"
  let ?s = "\<lparr>game = JStr ''NLH'', buy_in = JFloat (- 5), cash_out = JFloat 0,
             location = JStr ''Unknown'', hours_played = JNull, notes' = JStr '''',
             date = new_year, stake = JStr ''unknown'', format = JNull, bullets = 1,
             tag = JStr ''''\<rparr> :: datetime session"
  have b: "required_float sample_lib ?data ''buy_in'' = Inr (- 5)"
    and c: "required_float sample_lib ?data ''cash_out'' = Inr 0"
    by (simp_all add: required_float_def dindex_def float_fits)
  have h: "post_hours sample_lib ?data = Inr JNull" and n: "post_bullets sample_lib ?data = Inr 1"
    by (simp_all add: post_hours_def post_bullets_def dget_def)
  have t: "(let t = takeWhile (\<lambda>c. \<not> is_space c) (dropWhile is_space ''NLH'')
            in if CHR ''/'' \<in> set t then t else ''unknown'') = ''unknown''"
    by code_simp
  have s: "Session_init sample_lib new_year (post_args ?data (- 5) 0 JNull 1) = Inr ?s"
    by (simp add: post_init_cases dget_def py_or_def t)
  from post_session_renders [OF s h] obtain j where "session_to_json sample_lib ?s = Inr j" ..
  from post_created [OF b c h n s this, of app_ab] show ?thesis
    by (auto simp: app_ab_def)
qed

lemma post_null_buy_in_unhandled:
  "api_sessions_post sample_lib new_year
     [(''game'', JStr ''NLH''), (''buy_in'', JNull), (''cash_out'', JInt 0)] app_ab =
   (Response 500 (Unhandled TypeError), app_ab)"
  by (simp add: api_sessions_post_def required_float_def dindex_def invalid_or_unhandled_def)

lemma post_huge_buy_in_unhandled:
  "api_sessions_post sample_lib new_year
     [(''game'', JStr ''NLH''), (''buy_in'', JInt huge), (''cash_out'', JInt 2)] app_ab =
   (Response 500 (Unhandled OverflowError), app_ab)"
  by (simp add: api_sessions_post_def required_float_def dindex_def invalid_or_unhandled_def
      huge_overflows)

lemma post_huge_hours_unhandled:
  "api_sessions_post sample_lib new_year
     [(''game'', JStr ''NLH''), (''buy_in'', JInt 1), (''cash_out'', JInt 2),
      (''hours_played'', JInt huge)] app_ab =
   (Response 500 (Unhandled OverflowError), app_ab)"
  by (simp add: api_sessions_post_def required_float_def dindex_def post_hours_def dget_def
      type_or_value_def huge_overflows float_fits)

section \<open>Saving and loading\<close>

lemma py_or_keeps: "truthy v \<or> v = d \<Longrightarrow> py_or v d = v"
  by (auto simp: py_or_def)

lemma session_dict_lookups:
  "dget (session_to_dict lib s) ''game'' = game s"
  "dget_default (session_to_dict lib s) ''buy_in'' dflt = buy_in s"
  "dget_default (session_to_dict lib s) ''cash_out'' dflt = cash_out s"
  "dget (session_to_dict lib s) ''location'' = location s"
  "dget (session_to_dict lib s) ''hours_played'' = hours_played s"
  "dget (session_to_dict lib s) ''notes'' = notes' s"
  "dget (session_to_dict lib s) ''date'' = JStr (isoformat lib (date s))"
  "dget (session_to_dict lib s) ''bullets'' = JInt (bullets s)"
  "dget (session_to_dict lib s) ''tag'' = tag s"
  "dget (session_to_dict lib s) ''format'' = format s"
  "dget (session_to_dict lib s) ''stake'' = stake s"
  by (simp_all add: session_to_dict_def dget_def dget_default_def)

lemma session_reload:
  assumes "\<exists>r. buy_in s = JFloat r" and "\<exists>r. cash_out s = JFloat r"
    and "truthy (stake s)"
    and "isoformat lib (date s) \<noteq> []"
    and "fromisoformat lib (isoformat lib (date s)) = Some (date s)"
  shows "session_from_dict lib now (JObj (session_to_dict lib s)) =
           Inr (s\<lparr>location := py_or (location s) (JStr ''Unknown''),
                  notes' := py_or (notes' s) (JStr ''''),
                  tag := py_or (tag s) (JStr '''')\<rparr>)"
proof -
  from assms(1,2) obtain b c where bc: "buy_in s = JFloat b" "cash_out s = JFloat c" by blast
  have d: "parse_date lib (JStr (isoformat lib (date s))) = Inr (Some (date s))"
    using assms(4,5) by (simp add: parse_date_def)
  have "Session_init lib now
          \<lparr>a_game = game s, a_buy_in = buy_in s, a_cash_out = cash_out s,
           a_location = py_or (location s) (JStr ''Unknown''),
           a_hours_played = hours_played s,
           a_notes = py_or (notes' s) (JStr ''''),
           a_date = Some (date s), a_stake = stake s, a_format = format s,
           a_bullets = JInt (bullets s), a_tag = tag s\<rparr> =
        Inr (s\<lparr>location := py_or (location s) (JStr ''Unknown''),
               notes' := py_or (notes' s) (JStr ''''),
               tag := py_or (tag s) (JStr '''')\<rparr>)"
    using assms(3) bc by (cases s) (simp add: Session_init_def)
  then show ?thesis
    by (simp add: session_from_dict_def session_dict_lookups d)
qed

lemma session_round_trip:
  assumes "\<exists>r. buy_in s = JFloat r" and "\<exists>r. cash_out s = JFloat r"
    and "truthy (location s)"
    and "truthy (notes' s) \<or> notes' s = JStr ''''"
    and "truthy (tag s) \<or> tag s = JStr ''''"
    and "truthy (stake s)"
    and "isoformat lib (date s) \<noteq> []"
    and "fromisoformat lib (isoformat lib (date s)) = Some (date s)"
  shows "session_from_dict lib now (JObj (session_to_dict lib s)) = Inr s"
proof -
  have l: "py_or (location s) (JStr ''Unknown'') = location s"
    using assms(3) by (simp add: py_or_keeps)
  have n: "py_or (notes' s) (JStr '''') = notes' s"
    using assms(4) by (rule py_or_keeps)
  have t: "py_or (tag s) (JStr '''') = tag s"
    using assms(5) by (rule py_or_keeps)
  from session_reload [OF assms(1,2,6,7,8), of now] show ?thesis
    by (simp add: l n t)
qed

lemma load_loop_round_trip:
  assumes "\<forall>s\<in>set ss. session_from_dict lib now (JObj (session_to_dict lib s)) = Inr s"
  shows "load_loop lib now roll (map (\<lambda>s. JObj (session_to_dict lib s)) ss) =
           Inr (roll\<lparr>sessions := sessions roll @ ss\<rparr>)"
  using assms
proof (induction ss arbitrary: roll)
  case Nil
  then show ?case by simp
next
  case (Cons s ss)
  then show ?case by (simp add: add_session_def)
qed

lemma py_or_fixed: "py_or v d = v \<Longrightarrow> truthy v \<or> v = d"
  by (auto simp: py_or_def split: if_splits)

lemma infer_stake_nonempty: "infer_stake_from_game g = Inr t \<Longrightarrow> t \<noteq> []"
  by (cases g) (auto simp: infer_stake_from_game_def split: list.splits if_splits)

lemma Session_init_fields:
  assumes "Session_init lib now a = Inr s"
  shows "(\<exists>r. buy_in s = JFloat r) \<and> (\<exists>r. cash_out s = JFloat r) \<and> truthy (stake s)
       \<and> location s = a_location a \<and> notes' s = a_notes a
       \<and> tag s = py_or (a_tag a) (JStr '''')"
proof -
  from assms have "truthy (stake s)"
    by (cases "infer_stake_from_game (a_game a)")
       (auto simp: Session_init_def split: sum.splits if_splits dest: infer_stake_nonempty)
  with assms show ?thesis
    by (auto simp: Session_init_def split: sum.splits)
qed

lemma session_round_trip_only_if:
  assumes "session_from_dict lib now (JObj (session_to_dict lib s)) = Inr s"
  shows "(\<exists>r. buy_in s = JFloat r) \<and> (\<exists>r. cash_out s = JFloat r)
       \<and> truthy (location s) \<and> truthy (stake s)
       \<and> (truthy (notes' s) \<or> notes' s = JStr '''')
       \<and> (truthy (tag s) \<or> tag s = JStr '''')"
proof -
  from assms obtain dt where
    i: "Session_init lib now
          \<lparr>a_game = game s, a_buy_in = buy_in s, a_cash_out = cash_out s,
           a_location = py_or (location s) (JStr ''Unknown''),
           a_hours_played = hours_played s,
           a_notes = py_or (notes' s) (JStr ''''),
           a_date = dt, a_stake = stake s, a_format = format s,
           a_bullets = JInt (bullets s), a_tag = tag s\<rparr> = Inr s"
    by (auto simp: session_from_dict_def session_dict_lookups split: sum.splits)
  from Session_init_fields [OF i]
  have f: "(\<exists>r. buy_in s = JFloat r) \<and> (\<exists>r. cash_out s = JFloat r) \<and> truthy (stake s)"
    and l: "py_or (location s) (JStr ''Unknown'') = location s"
    and n: "py_or (notes' s) (JStr '''') = notes' s"
    and t: "py_or (tag s) (JStr '''') = tag s"
    by simp_all
  from py_or_fixed [OF l] have "truthy (location s)" by auto
  with f py_or_fixed [OF n] py_or_fixed [OF t] show ?thesis by blast
qed

lemma load_loop_result:
  "load_loop lib now roll items = Inr roll' \<Longrightarrow>
   \<exists>ss. map (session_from_dict lib now) items = map Inr ss
      \<and> roll' = roll\<lparr>sessions := sessions roll @ ss\<rparr>"
proof (induction items arbitrary: roll)
  case Nil
  then show ?case by simp
next
  case (Cons x items)
  from Cons.prems obtain s where s: "session_from_dict lib now x = Inr s"
    and rest: "load_loop lib now (add_session roll s) items = Inr roll'"
    by (auto split: sum.splits)
  from Cons.IH [OF rest] obtain ss where
    ss: "map (session_from_dict lib now) items = map Inr ss"
    and r: "roll' = (add_session roll s)\<lparr>sessions := sessions (add_session roll s) @ ss\<rparr>"
    by blast
  from s ss have "map (session_from_dict lib now) (x # items) = map Inr (s # ss)" by simp
  moreover from r have "roll' = roll\<lparr>sessions := sessions roll @ (s # ss)\<rparr>"
    by (simp add: add_session_def)
  ultimately show ?case by blast
qed

lemma new_year_iso: "isoformat sample_lib new_year = ''2025-01-01T00:00:00''"
  by (simp add: sample_lib_def) code_simp

lemma new_year_parse: "fromisoformat sample_lib ''2025-01-01T00:00:00'' = Some new_year"
  by (simp add: sample_lib_def) code_simp

text \<open>
  C2, as amended. Take a bankroll whose dates survive \<open>fromisoformat(isoformat(date))\<close>.
  Loading after saving gives the starting amount 0 and the same sessions, field for field
  and in the same order, exactly when every session has floats in \<open>buy_in\<close> and
  \<open>cash_out\<close>, a location and a stake that are not empty (true as Python values), and
  notes and a tag that are not empty or are the empty string. Every session that POST
  creates is of this kind (\<open>post_created_round_trips\<close>).
\<close>

theorem load_after_save:
  assumes iso: "\<forall>s\<in>set (sessions roll).
      isoformat lib (date s) \<noteq> []
    \<and> fromisoformat lib (isoformat lib (date s)) = Some (date s)"
  shows "(load_bankroll lib now (save_bankroll lib roll) =
            Inr (Some \<lparr>starting_amount = 0, sessions = sessions roll\<rparr>))
       = (\<forall>s\<in>set (sessions roll).
            (\<exists>r. buy_in s = JFloat r) \<and> (\<exists>r. cash_out s = JFloat r)
          \<and> truthy (location s) \<and> truthy (stake s)
          \<and> (truthy (notes' s) \<or> notes' s = JStr '''')
          \<and> (truthy (tag s) \<or> tag s = JStr ''''))"
proof
  assume ok: "\<forall>s\<in>set (sessions roll).
            (\<exists>r. buy_in s = JFloat r) \<and> (\<exists>r. cash_out s = JFloat r)
          \<and> truthy (location s) \<and> truthy (stake s)
          \<and> (truthy (notes' s) \<or> notes' s = JStr '''')
          \<and> (truthy (tag s) \<or> tag s = JStr '''')"
  have "\<forall>s\<in>set (sessions roll). session_from_dict lib now (JObj (session_to_dict lib s)) = Inr s"
    using ok iso by (auto intro!: session_round_trip)
  from load_loop_round_trip [OF this, of "\<lparr>starting_amount = 0, sessions = []\<rparr>"]
  show "load_bankroll lib now (save_bankroll lib roll) =
          Inr (Some \<lparr>starting_amount = 0, sessions = sessions roll\<rparr>)"
    by (simp add: load_bankroll_def save_bankroll_def save_payload_def dget_default_def)
next
  assume "load_bankroll lib now (save_bankroll lib roll) =
            Inr (Some \<lparr>starting_amount = 0, sessions = sessions roll\<rparr>)"
  then have "load_loop lib now \<lparr>starting_amount = 0, sessions = []\<rparr>
               (map (\<lambda>s. JObj (session_to_dict lib s)) (sessions roll)) =
             Inr \<lparr>starting_amount = 0, sessions = sessions roll\<rparr>"
    by (cases "load_loop lib now \<lparr>starting_amount = 0, sessions = []\<rparr>
               (map (\<lambda>s. JObj (session_to_dict lib s)) (sessions roll))")
       (simp_all add: load_bankroll_def save_bankroll_def save_payload_def dget_default_def)
  from load_loop_result [OF this] obtain ss where
    m: "map (session_from_dict lib now) (map (\<lambda>s. JObj (session_to_dict lib s)) (sessions roll))
          = map Inr ss"
    and e: "\<lparr>starting_amount = 0, sessions = sessions roll\<rparr> =
            \<lparr>starting_amount = 0, sessions = []\<rparr>\<lparr>sessions := [] @ ss\<rparr>"
    by auto
  from e have "ss = sessions roll" by simp
  with m have "\<forall>s\<in>set (sessions roll).
      session_from_dict lib now (JObj (session_to_dict lib s)) = Inr s"
    by simp
  then show "\<forall>s\<in>set (sessions roll).
            (\<exists>r. buy_in s = JFloat r) \<and> (\<exists>r. cash_out s = JFloat r)
          \<and> truthy (location s) \<and> truthy (stake s)
          \<and> (truthy (notes' s) \<or> notes' s = JStr '''')
          \<and> (truthy (tag s) \<or> tag s = JStr '''')"
    by (intro ballI session_round_trip_only_if) blast
qed

theorem load_after_save_witness:
  "isoformat sample_lib new_year = ''2025-01-01T00:00:00''
   \<and> fromisoformat sample_lib ''2025-01-01T00:00:00'' = Some new_year
   \<and> buy_in session_a = JFloat 20 \<and> cash_out session_a = JFloat 42
   \<and> buy_in session_b = JFloat 20 \<and> cash_out session_b = JFloat 0
   \<and> load_bankroll sample_lib new_year (save_bankroll sample_lib roll_ab) = Inr (Some roll_ab)"
proof -
  have f: "buy_in session_a = JFloat 20 \<and> cash_out session_a = JFloat 42
   \<and> buy_in session_b = JFloat 20 \<and> cash_out session_b = JFloat 0"
    by (simp add: session_a_def session_b_def)
  have iso: "\<forall>s\<in>set (sessions roll_ab).
      isoformat sample_lib (date s) \<noteq> []
    \<and> fromisoformat sample_lib (isoformat sample_lib (date s)) = Some (date s)"
    by (simp add: roll_ab_def session_a_def session_b_def new_year_iso new_year_parse)
  have ok: "\<forall>s\<in>set (sessions roll_ab).
            (\<exists>r. buy_in s = JFloat r) \<and> (\<exists>r. cash_out s = JFloat r)
          \<and> truthy (location s) \<and> truthy (stake s)
          \<and> (truthy (notes' s) \<or> notes' s = JStr '''')
          \<and> (truthy (tag s) \<or> tag s = JStr '''')"
    by (simp add: roll_ab_def session_a_def session_b_def)
  from load_after_save [OF iso, of new_year] ok
  have "load_bankroll sample_lib new_year (save_bankroll sample_lib roll_ab) =
          Inr (Some \<lparr>starting_amount = 0, sessions = sessions roll_ab\<rparr>)"
    by blast
  then have "load_bankroll sample_lib new_year (save_bankroll sample_lib roll_ab) = Inr (Some roll_ab)"
    by (simp add: roll_ab_def)
  with f new_year_iso new_year_parse show ?thesis by simp
qed

lemma post_created_round_trips:
  assumes "Session_init lib now (post_args data b c h n) = Inr s"
  shows "(\<exists>r. buy_in s = JFloat r) \<and> (\<exists>r. cash_out s = JFloat r)
       \<and> truthy (location s) \<and> truthy (stake s)
       \<and> (truthy (notes' s) \<or> notes' s = JStr '''')
       \<and> (truthy (tag s) \<or> tag s = JStr '''')"
  using Session_init_fields [OF assms]
  by (auto simp: post_args_def py_or_def)

lemma init_blank_location:
  "Session_init sample_lib new_year
     \<lparr>a_game = JStr ''0.10/0.20 NLH'', a_buy_in = JInt 20, a_cash_out = JInt 42,
      a_location = JStr '''', a_hours_played = JFloat (5 / 2), a_notes = JStr ''Ran hot'',
      a_date = Some new_year, a_stake = JNull, a_format = JStr ''cash'', a_bullets = JInt 1,
      a_tag = JStr ''A-game''\<rparr> = Inr (session_a\<lparr>location := JStr ''''\<rparr>)"
  by code_simp

text \<open>
  C2 fails as stated: a session constructed with the location \<open>""\<close> comes back from the
  file with the location \<open>Unknown\<close>, because \<open>_session_from_dict\<close> reads
  \<open>d.get("location") or "Unknown"\<close>.
\<close>

theorem load_after_save_counterexample:
  "Session_init sample_lib new_year
     \<lparr>a_game = JStr ''0.10/0.20 NLH'', a_buy_in = JInt 20, a_cash_out = JInt 42,
      a_location = JStr '''', a_hours_played = JFloat (5 / 2), a_notes = JStr ''Ran hot'',
      a_date = Some new_year, a_stake = JNull, a_format = JStr ''cash'', a_bullets = JInt 1,
      a_tag = JStr ''A-game''\<rparr> = Inr (session_a\<lparr>location := JStr ''''\<rparr>)
   \<and> load_bankroll sample_lib new_year
       (save_bankroll sample_lib \<lparr>starting_amount = 0, sessions = [session_a\<lparr>location := JStr ''''\<rparr>]\<rparr>)
     = Inr (Some \<lparr>starting_amount = 0, sessions = [session_a\<lparr>location := JStr ''Unknown''\<rparr>]\<rparr>)
   \<and> location (session_a\<lparr>location := JStr ''Unknown''\<rparr>) \<noteq> location (session_a\<lparr>location := JStr ''''\<rparr>)"
proof -
  let ?s = "session_a\<lparr>location := JStr ''''\<rparr>"
  have "session_from_dict sample_lib new_year (JObj (session_to_dict sample_lib ?s)) =
          Inr (?s\<lparr>location := py_or (location ?s) (JStr ''Unknown''),
                  notes' := py_or (notes' ?s) (JStr ''''),
                  tag := py_or (tag ?s) (JStr '''')\<rparr>)"
    by (rule session_reload) (simp_all add: session_a_def new_year_iso new_year_parse)
  then have "session_from_dict sample_lib new_year (JObj (session_to_dict sample_lib ?s)) =
          Inr (session_a\<lparr>location := JStr ''Unknown''\<rparr>)"
    by (simp add: session_a_def py_or_def)
  then have "load_bankroll sample_lib new_year
       (save_bankroll sample_lib \<lparr>starting_amount = 0, sessions = [?s]\<rparr>)
     = Inr (Some \<lparr>starting_amount = 0, sessions = [session_a\<lparr>location := JStr ''Unknown''\<rparr>]\<rparr>)"
    by (simp add: load_bankroll_def save_bankroll_def save_payload_def dget_default_def
        add_session_def)
  with init_blank_location show ?thesis by simp
qed


text \<open>
  Once a PUT has cleared \<open>buy_in\<close>, the file it saved cannot be loaded:
  \<open>float(d.get("buy_in", 0.0))\<close> is \<open>float(None)\<close>.
\<close>

lemma load_after_cleared_buy_in_raises:
  "load_bankroll sample_lib new_year
     (disk (snd (api_session_modify sample_lib PUT 0 [(''buy_in'', JNull)] app_ab))) =
   Inl TypeError"
proof -
  have "disk (snd (api_session_modify sample_lib PUT 0 [(''buy_in'', JNull)] app_ab)) =
    save_bankroll sample_lib \<lparr>starting_amount = 0, sessions = [session_a\<lparr>buy_in := JNull\<rparr>, session_b]\<rparr>"
    by (simp add: put_cleared_buy_in)
  moreover have "session_from_dict sample_lib new_year
      (JObj (session_to_dict sample_lib (session_a\<lparr>buy_in := JNull\<rparr>))) = Inl TypeError"
    by (simp add: session_from_dict_def session_dict_lookups parse_date_def new_year_iso
        new_year_parse session_a_def Session_init_def)
  ultimately show ?thesis
    by (simp add: load_bankroll_def save_bankroll_def save_payload_def dget_default_def)
qed

section \<open>Session-length buckets\<close>

lemma length_bucket_in_range:
  assumes "0 \<le> h" and "h < 999"
  shows "length_bucket h = Some (if h < 2 then 0 else if h < 3 then 1 else if h < 4 then 2 else 3)"
  using assms by (simp add: length_bucket_def cut_left_closed_def searchsorted_right_def bins_def)

lemma length_bucket_out_of_range:
  "h < 0 \<or> 999 \<le> h \<Longrightarrow> length_bucket h = None"
  by (auto simp: length_bucket_def cut_left_closed_def searchsorted_right_def bins_def)

text \<open>
  C9. The last bin edge is 999, not infinity: a session of 1000 hours gets no bucket
  from \<open>pd.cut\<close> and is counted nowhere, although the label of the last bucket is
  \<open>4h+\<close>. Between 0 and 999 the four buckets are as the claim says.
\<close>

theorem long_session_not_counted:
  "hours_played (session_a\<lparr>hours_played := JFloat 1000\<rparr>) = JFloat 1000
   \<and> length_bucket 1000 = None
   \<and> stats_session_length \<lparr>starting_amount = 0, sessions = [session_a\<lparr>hours_played := JFloat 1000\<rparr>]\<rparr>
       = Inr [(0, 0, 0), (1, 0, 0), (2, 0, 0), (3, 0, 0)]"
  by code_simp

end
